theory Spec2Isabelle
  imports Complex_Main "HOL-Library.Sublist"
begin

section \<open>Python values\<close>

text \<open>
  The services of this repository pass JSON-like Python data around: \<^verbatim>\<open>None\<close>, booleans,
  integers, floats, strings, dictionaries with string keys, lists, and now and then an
  object of some other class.  An exception is represented by its message, the text
  \<^verbatim>\<open>str(e)\<close> that the handlers log and store.

  An object is seen by the code only through \<^verbatim>\<open>isinstance\<close> tests and through its items
  or elements.  \<open>'r pyobj\<close> is that view: what one object is, with references of type
  \<open>'r\<close> to its children.  A function \<open>'r \<Rightarrow> 'r pyobj\<close> from references to objects is a
  heap; since a child reference may lead back to its parent, heaps contain the aliased and
  self-referential structures that plain trees cannot.  An object of another class
  carries its truth value and the outcome of \<^verbatim>\<open>str(obj)\<close>, which may raise.

  Floats are carried by the number they denote (no computation is made on them, and NaN is
  not represented).  Strings are lists of characters; the non-ASCII letters and the
  pictographs of the source's literal texts are transliterated to ASCII.
\<close>

datatype exn = Exn string

datatype 'r pyobj =
    ONone
  | OBool bool
  | OInt int
  | OFloat real
  | OStr string
  | ODict "(string \<times> 'r) list"
  | OList "'r list"
  | OOther bool "exn + string"

text \<open>
  Values built by the code itself are trees: every dictionary and list it returns is
  freshly allocated.  In a dictionary (an association list in insertion order) Python
  keeps each key once.
\<close>

datatype pyval =
    PNone
  | PBool bool
  | PInt int
  | PFloat real
  | PStr string
  | PDict "(string \<times> pyval) list"
  | PList "pyval list"
  | PObj bool "exn + string"

text \<open>A tree is a heap in which every value is the reference to itself.\<close>

fun obj_of :: "pyval \<Rightarrow> pyval pyobj" where
  "obj_of PNone = ONone"
| "obj_of (PBool b) = OBool b"
| "obj_of (PInt i) = OInt i"
| "obj_of (PFloat x) = OFloat x"
| "obj_of (PStr s) = OStr s"
| "obj_of (PDict kvs) = ODict kvs"
| "obj_of (PList xs) = OList xs"
| "obj_of (PObj t r) = OOther t r"

text \<open>\<^verbatim>\<open>d[k] = v\<close>: an existing key keeps its place, a new key goes to the end.\<close>

fun dict_set :: "string \<Rightarrow> 'v \<Rightarrow> (string \<times> 'v) list \<Rightarrow> (string \<times> 'v) list" where
  "dict_set k v [] = [(k, v)]"
| "dict_set k v ((k', v') # kvs) = (if k' = k then (k, v) # kvs else (k', v') # dict_set k v kvs)"

section \<open>The deep sanitizer (comprehensive\_report\_generator.py)\<close>

text \<open>
  \<^verbatim>\<open>_deep_clean_data(self, obj, max_depth=10, current_depth=0)\<close>.  The two
  \<^verbatim>\<open>try\<close> blocks inside its loops guard the recursive call and the assignments around it;
  none of these raises (the only call that can, \<^verbatim>\<open>str(obj)\<close>, has its own bare
  \<^verbatim>\<open>except\<close>), so their handlers are never entered and the function returns a value, not an
  error.  Its recursion is on \<open>current_depth\<close> alone: the termination proof below does not
  look at the object, which is why it holds on every heap.
\<close>

definition problem_keys :: "string list" where
  "problem_keys = [''circular_ref'', ''parent'', ''root'', ''_internal'']"

definition max_depth_marker :: pyval where
  "max_depth_marker = PDict [(''error'', PStr ''Max depth reached'')]"

text \<open>\<^verbatim>\<open>isinstance(value, str) and len(value) > 10000\<close>, and the value stored then.\<close>

fun long_str :: "'r pyobj \<Rightarrow> bool" where
  "long_str (OStr s) = (length s > 10000)"
| "long_str _ = False"

fun truncated :: "'r pyobj \<Rightarrow> pyval" where
  "truncated (OStr s) = PStr (take 10000 s @ ''... [truncated]'')"
| "truncated _ = PNone"

function deep_clean_data :: "('r \<Rightarrow> 'r pyobj) \<Rightarrow> 'r \<Rightarrow> int \<Rightarrow> int \<Rightarrow> pyval" where
  "deep_clean_data heap obj max_depth current_depth =
     (if current_depth > max_depth then max_depth_marker
      else case heap obj of
        ONone \<Rightarrow> PNone
      | OBool b \<Rightarrow> PBool b
      | OInt i \<Rightarrow> PInt i
      | OFloat x \<Rightarrow> PFloat x
      | OStr s \<Rightarrow> PStr s
      | ODict items \<Rightarrow>
          PDict (fold (\<lambda>(key, value) cleaned.
                   if key \<in> set problem_keys then cleaned
                   else if long_str (heap value) then dict_set key (truncated (heap value)) cleaned
                   else dict_set key (deep_clean_data heap value max_depth (current_depth + 1)) cleaned)
                 items [])
      | OList xs \<Rightarrow>
          PList (map (\<lambda>item. deep_clean_data heap item max_depth (current_depth + 1)) (take 50 xs))
      | OOther t r \<Rightarrow>
          (case r of Inr s \<Rightarrow> PStr (take 1000 s) | Inl e \<Rightarrow> PStr ''[Unserializable object]''))"
  by pat_completeness auto
termination
  by (relation "measure (\<lambda>(heap, obj, max_depth, current_depth). nat (max_depth + 1 - current_depth))") auto

declare deep_clean_data.simps [simp del]

text \<open>The loop over the items of a dictionary, and the value it stores under a kept key.\<close>

definition dict_build :: "('a \<Rightarrow> pyval) \<Rightarrow> (string \<times> 'a) list \<Rightarrow> (string \<times> pyval) list \<Rightarrow> (string \<times> pyval) list" where
  "dict_build g items acc =
     fold (\<lambda>(key, value) cleaned.
             if key \<in> set problem_keys then cleaned else dict_set key (g value) cleaned) items acc"

definition clean_value :: "('r \<Rightarrow> 'r pyobj) \<Rightarrow> int \<Rightarrow> int \<Rightarrow> 'r \<Rightarrow> pyval" where
  "clean_value heap max_depth current_depth value =
     (if long_str (heap value) then truncated (heap value)
      else deep_clean_data heap value max_depth (current_depth + 1))"

subsection \<open>Measures on values\<close>

text \<open>
  Nesting depth counts containers: a scalar has depth 0, a dictionary or list one more
  than its deepest member.
\<close>

fun depth :: "pyval \<Rightarrow> nat" where
  "depth (PDict kvs) = Suc (fold max (map (\<lambda>(k, v). depth v) kvs) 0)"
| "depth (PList xs) = Suc (fold max (map depth xs) 0)"
| "depth _ = 0"

text \<open>Only scalars, mappings and sequences, at every level.\<close>

fun json_like :: "pyval \<Rightarrow> bool" where
  "json_like (PDict kvs) = list_all (\<lambda>(k, v). json_like v) kvs"
| "json_like (PList xs) = list_all json_like xs"
| "json_like (PObj t r) = False"
| "json_like _ = True"

text \<open>Every key of every dictionary inside a value.\<close>

fun all_keys :: "pyval \<Rightarrow> string list" where
  "all_keys (PDict kvs) = map fst kvs @ concat (map (\<lambda>(k, v). all_keys v) kvs)"
| "all_keys (PList xs) = concat (map all_keys xs)"
| "all_keys _ = []"

text \<open>\<^verbatim>\<open>x = []; x.append(x)\<close>: a list that is its own only element.\<close>

definition self_list :: "unit \<Rightarrow> unit pyobj" where
  "self_list u = OList [u]"

section \<open>Dictionaries, truth values and text\<close>

type_synonym pydict = "(string \<times> pyval) list"

text \<open>Python's truth value of an object, as \<^verbatim>\<open>if x:\<close> and \<^verbatim>\<open>x and y\<close> test it.\<close>

fun truthy :: "pyval \<Rightarrow> bool" where
  "truthy PNone = False"
| "truthy (PBool b) = b"
| "truthy (PInt i) = (i \<noteq> 0)"
| "truthy (PFloat x) = (x \<noteq> 0)"
| "truthy (PStr s) = (s \<noteq> [])"
| "truthy (PDict kvs) = (kvs \<noteq> [])"
| "truthy (PList xs) = (xs \<noteq> [])"
| "truthy (PObj t r) = t"

text \<open>\<^verbatim>\<open>isinstance(x, dict)\<close>.\<close>

fun is_dict :: "pyval \<Rightarrow> bool" where
  "is_dict (PDict kvs) = True"
| "is_dict _ = False"

text \<open>\<^verbatim>\<open>d.get(key, default)\<close> on a dictionary.\<close>

definition dict_get :: "pydict \<Rightarrow> string \<Rightarrow> pyval \<Rightarrow> pyval" where
  "dict_get d key dflt = (case map_of d key of Some v \<Rightarrow> v | None \<Rightarrow> dflt)"

text \<open>
  \<^verbatim>\<open>x.get(key, default)\<close> on any value: only a dictionary has the method (an object of
  another class is taken to have no \<^verbatim>\<open>get\<close> and no \<^verbatim>\<open>lower\<close> attribute).
\<close>

fun py_get :: "pyval \<Rightarrow> string \<Rightarrow> pyval \<Rightarrow> exn + pyval" where
  "py_get (PDict d) key dflt = Inr (dict_get d key dflt)"
| "py_get _ key dflt = Inl (Exn ''AttributeError: object has no attribute get'')"

text \<open>\<^verbatim>\<open>str.lower()\<close>, on the ASCII letters.\<close>

definition lower_char :: "char \<Rightarrow> char" where
  "lower_char c = (let n = (of_char c :: nat) in if 65 \<le> n \<and> n \<le> 90 then char_of (n + 32) else c)"

definition py_lower :: "string \<Rightarrow> string" where
  "py_lower s = map lower_char s"

text \<open>Sequencing of results: the first exception ends the computation.\<close>

definition bind_r :: "exn + 'a \<Rightarrow> ('a \<Rightarrow> exn + 'b) \<Rightarrow> exn + 'b" where
  "bind_r r f = (case r of Inl e \<Rightarrow> Inl e | Inr x \<Rightarrow> f x)"

text \<open>
  The elements of a comprehension are evaluated from left to right; the first exception
  leaves the comprehension.
\<close>

fun collect :: "(exn + 'a) list \<Rightarrow> exn + 'a list" where
  "collect [] = Inr []"
| "collect (r # rs) =
     (case r of Inl e \<Rightarrow> Inl e
      | Inr x \<Rightarrow> (case collect rs of Inl e \<Rightarrow> Inl e | Inr xs \<Rightarrow> Inr (x # xs)))"

section \<open>The environment of the services\<close>

text \<open>
  A progress callback is called with a step number and a message; it returns or raises.
  \<^verbatim>\<open>if progress_callback: progress_callback(step, message)\<close> is \<open>notify\<close>.
\<close>

type_synonym callback = "int \<Rightarrow> string \<Rightarrow> exn option"

definition notify :: "callback option \<Rightarrow> int \<Rightarrow> string \<Rightarrow> exn option" where
  "notify progress_callback step message =
     (case progress_callback of None \<Rightarrow> None | Some cb \<Rightarrow> cb step message)"

text \<open>
  What the orchestrator and the report generator call but do not define: the four content
  providers, each of which returns a value or raises; the persistence sink
  \<^verbatim>\<open>salvar_etapa\<close>, which may raise (every call of it stands inside a \<^verbatim>\<open>try\<close>); the
  clock; and the text that Python's formatting gives for a number or a container.
\<close>

record env =
  generate_gigantic_analysis :: "pydict \<Rightarrow> string \<Rightarrow> callback option \<Rightarrow> exn + pyval"
  execute_ultra_enhanced_analysis :: "pydict \<Rightarrow> string \<Rightarrow> callback option \<Rightarrow> exn + pyval"
  analyze_conversion_funnel :: "pydict \<Rightarrow> pyval \<Rightarrow> exn + pyval"
  generate_strategic_insights :: "pydict \<Rightarrow> exn + pyval"
  salvar_etapa_raises :: "string \<Rightarrow> pyval \<Rightarrow> string \<Rightarrow> exn option"
  time_start :: real
  time_end :: real
  now_isoformat :: string
  now_strftime :: string
  format_value :: "pyval \<Rightarrow> exn + string"

text \<open>The entry of \<^verbatim>\<open>self.execution_state\<close> for one session.\<close>

record session =
  status :: string
  start_time :: real
  errors :: "exn list"
  execution_time :: "real option"
  error :: "string option"

text \<open>
  The mutable state: the orchestrator's \<^verbatim>\<open>execution_state\<close> and what the two sinks of
  \<^verbatim>\<open>auto_save_manager\<close> have received.
\<close>

record world =
  execution_state :: "(string \<times> session) list"
  saved_steps :: "(string \<times> pyval \<times> string) list"
  saved_errors :: "(string \<times> exn \<times> string) list"

text \<open>A statement of the code: it changes the state and returns a value or raises.\<close>

type_synonym 'a action = "world \<Rightarrow> (exn + 'a) \<times> world"

definition ret :: "'a \<Rightarrow> 'a action" where
  "ret x = (\<lambda>w. (Inr x, w))"

definition lift :: "exn + 'a \<Rightarrow> 'a action" where
  "lift r = (\<lambda>w. (r, w))"

definition check :: "exn option \<Rightarrow> unit action" where
  "check r = (\<lambda>w. (case r of None \<Rightarrow> Inr () | Some e \<Rightarrow> Inl e, w))"

definition andthen :: "'a action \<Rightarrow> ('a \<Rightarrow> 'b action) \<Rightarrow> 'b action" where
  "andthen m f = (\<lambda>w. case m w of (Inl e, w') \<Rightarrow> (Inl e, w') | (Inr x, w') \<Rightarrow> f x w')"

definition try_except :: "'a action \<Rightarrow> (exn \<Rightarrow> 'a action) \<Rightarrow> 'a action" where
  "try_except m handler = (\<lambda>w. case m w of (Inl e, w') \<Rightarrow> handler e w' | (Inr x, w') \<Rightarrow> (Inr x, w'))"

definition salvar_etapa :: "env \<Rightarrow> string \<Rightarrow> pyval \<Rightarrow> string \<Rightarrow> unit action" where
  "salvar_etapa env nome dados categoria =
     (\<lambda>w. case salvar_etapa_raises env nome dados categoria of
            Some e \<Rightarrow> (Inl e, w)
          | None \<Rightarrow> (Inr (), w\<lparr>saved_steps := saved_steps w @ [(nome, dados, categoria)]\<rparr>))"

text \<open>
  Modelled from the spec: \<^verbatim>\<open>salvar_erro\<close> of \<^verbatim>\<open>services.auto_save_manager\<close>, whose
  source is not part of the repository files at hand.  The error sink
  \<^verbatim>\<open>recordError(stageName, error, context)\<close> is best-effort and returns nothing: it records
  the error and never raises.
\<close>

definition salvar_erro :: "string \<Rightarrow> exn \<Rightarrow> string \<Rightarrow> unit action" where
  "salvar_erro nome e session_id =
     (\<lambda>w. (Inr (), w\<lparr>saved_errors := saved_errors w @ [(nome, e, session_id)]\<rparr>))"

text \<open>
  The text of a value inside an f-string: a string stands for itself, an object of another
  class gives its \<^verbatim>\<open>str\<close> (or raises), a number or container gives what the runtime prints.
\<close>

definition py_format :: "env \<Rightarrow> pyval \<Rightarrow> exn + string" where
  "py_format env v =
     (case v of
        PStr s \<Rightarrow> Inr s
      | PNone \<Rightarrow> Inr ''None''
      | PBool b \<Rightarrow> Inr (if b then ''True'' else ''False'')
      | PObj t r \<Rightarrow> r
      | _ \<Rightarrow> format_value env v)"

section \<open>The orchestrator (super\_orchestrator.py)\<close>

subsection \<open>Copies and combinations\<close>

text \<open>\<^verbatim>\<open>_create_simple_copy(self, obj, max_depth=3, current_depth=0)\<close>.\<close>

function create_simple_copy :: "pyval \<Rightarrow> int \<Rightarrow> int \<Rightarrow> exn + pyval" where
  "create_simple_copy obj max_depth current_depth =
     (if current_depth > max_depth then Inr (PStr ''[Max depth reached]'')
      else case obj of
        PNone \<Rightarrow> Inr obj
      | PStr s \<Rightarrow> Inr obj
      | PInt i \<Rightarrow> Inr obj
      | PFloat x \<Rightarrow> Inr obj
      | PBool b \<Rightarrow> Inr obj
      | PDict items \<Rightarrow>
          bind_r (collect (map (\<lambda>(k, v). bind_r (create_simple_copy v max_depth (current_depth + 1))
                                              (\<lambda>c. Inr (k, c)))
                               (take 20 items)))
                 (\<lambda>kvs. Inr (PDict kvs))
      | PList xs \<Rightarrow>
          bind_r (collect (map (\<lambda>item. create_simple_copy item max_depth (current_depth + 1))
                               (take 10 xs)))
                 (\<lambda>ys. Inr (PList ys))
      | PObj t r \<Rightarrow> bind_r r (\<lambda>s. Inr (PStr (take 500 s))))"
  by pat_completeness auto
termination
  by (relation "measure (\<lambda>(obj, max_depth, current_depth). nat (max_depth + 1 - current_depth))") auto

declare create_simple_copy.simps [simp del]

definition safe_fields :: "string list" where
  "safe_fields = [''pesquisa_web_massiva'', ''avatar_ultra_detalhado'', ''metadata_gigante'']"

text \<open>
  \<^verbatim>\<open>_safe_combine_data\<close>.  A field whose copy raises is skipped.  The outer handler, which
  would return \<open>original_data\<close>, is never entered: copying a dictionary and storing into the
  copy do not raise.
\<close>

definition safe_combine_data :: "pydict \<Rightarrow> pyval \<Rightarrow> pydict" where
  "safe_combine_data original_data base_analysis =
     (case base_analysis of
        PDict b \<Rightarrow>
          (if truthy base_analysis then
             fold (\<lambda>field combined.
                     case map_of b field of
                       None \<Rightarrow> combined
                     | Some x \<Rightarrow>
                         (case create_simple_copy x 3 0 of
                            Inl e \<Rightarrow> combined
                          | Inr field_data \<Rightarrow> dict_set field field_data combined))
                  safe_fields original_data
           else original_data)
      | _ \<Rightarrow> original_data)"

text \<open>
  \<^verbatim>\<open>_combine_all_analyses\<close>.  A truthy analysis that is not a dictionary has no
  \<^verbatim>\<open>get\<close>; the handler then returns \<open>original_data\<close>, which the assignments to the copy
  have not touched.
\<close>

definition combine_all_analyses :: "pyval \<Rightarrow> pyval \<Rightarrow> pyval \<Rightarrow> pydict \<Rightarrow> pydict" where
  "combine_all_analyses base_analysis enhanced_analysis funnel_analysis original_data =
     (case
        bind_r (if truthy base_analysis then
                  bind_r (py_get base_analysis ''pesquisa_web_massiva'' (PDict [])) (\<lambda>mercado.
                  bind_r (py_get base_analysis ''avatar_ultra_detalhado'' (PDict [])) (\<lambda>avatar.
                  Inr (dict_set ''avatar'' avatar (dict_set ''mercado'' mercado original_data))))
                else Inr original_data) (\<lambda>combined.
        bind_r (if truthy enhanced_analysis then
                  bind_r (py_get enhanced_analysis ''consolidated_analysis'' (PDict [])) (\<lambda>psicologia.
                  Inr (dict_set ''psicologia'' psicologia combined))
                else Inr combined) (\<lambda>combined.
        if truthy funnel_analysis then
          bind_r (py_get funnel_analysis ''funil_conversao'' (PDict [])) (\<lambda>funil.
          Inr (dict_set ''funil'' funil combined))
        else Inr combined))
      of Inr combined \<Rightarrow> combined
       | Inl e \<Rightarrow> original_data)"

subsection \<open>Fallback analysis, executive summary, consolidation\<close>

text \<open>
  \<^verbatim>\<open>_create_fallback_analysis\<close>.  \<^verbatim>\<open>segmento.lower()\<close> raises unless the request's
  \<^verbatim>\<open>segmento\<close> is a string.
\<close>

definition create_fallback_analysis :: "env \<Rightarrow> pydict \<Rightarrow> exn + pyval" where
  "create_fallback_analysis env data =
     (let segmento = dict_get data ''segmento'' (PStr ''Empreendedores'');
          produto = dict_get data ''produto'' (PStr ''Programa MASI'')
      in case segmento of
        PStr s \<Rightarrow> Inr (PDict [
          (''tipo_analise'', PStr ''FALLBACK_ROBUSTO''),
          (''projeto_dados'', PDict data),
          (''analise_mercado'', PDict [
            (''segmento'', segmento),
            (''produto'', produto),
            (''status'', PStr ''Analise basica robusta''),
            (''tendencias'', PList [
              PStr (''Crescimento do mercado de '' @ py_lower s @ '' no Brasil''),
              PStr ''Digitalizacao acelerada pos-pandemia'',
              PStr ''Demanda por solucoes personalizadas'',
              PStr ''Foco em resultados mensuraveis'']),
            (''oportunidades'', PList [
              PStr ''Nichos especificos com menor concorrencia'',
              PStr ''Solucoes hibridas online/offline'',
              PStr ''Parcerias estrategicas'',
              PStr ''Expansao geografica gradual''])]),
          (''avatar_basico'', PDict [
            (''perfil'', PStr (''Profissional de '' @ s)),
            (''dores_principais'', PList [
              PStr ''Falta de direcionamento estrategico'',
              PStr ''Dificuldade de escalar negocio'',
              PStr ''Sobrecarga operacional'']),
            (''desejos_centrais'', PList [
              PStr ''Crescimento sustentavel'',
              PStr ''Mais liberdade operacional'',
              PStr ''Reconhecimento no mercado''])]),
          (''metadata_fallback'', PDict [
            (''engine'', PStr ''FALLBACK ROBUSTO v1.0''),
            (''generated_at'', PStr (now_isoformat env)),
            (''quality_level'', PStr ''BASICO_FUNCIONAL'')])])
      | _ \<Rightarrow> Inl (Exn ''AttributeError: object has no attribute lower''))"

text \<open>The two closing blocks of the executive summary, which no input changes.\<close>

definition proximos_passos_text :: string where
  "proximos_passos_text =
     ''\<newline>### PROXIMOS PASSOS RECOMENDADOS\<newline>'' @
     ''1. Revisar avatar e ajustar estrategia de comunicacao\<newline>'' @
     ''2. Implementar abordagens baseadas nos insights descobertos\<newline>'' @
     ''3. Monitorar metricas de performance\<newline>'' @
     ''4. Otimizar estrategia baseado em resultados\<newline>''"

definition garantias_text :: string where
  "garantias_text =
     ''\<newline>### GARANTIAS DE QUALIDADE\<newline>'' @
     ''- Sistema ultra robusto que nunca falha completamente\<newline>'' @
     ''- Sempre entrega analise funcional e aplicavel\<newline>'' @
     ''- Dados salvos automaticamente para recuperacao\<newline>'' @
     ''- Processo completamente auditavel\<newline>''"

text \<open>
  \<^verbatim>\<open>_generate_executive_summary\<close>: an f-string.  Its opening block and its list of
  components depend on the request and on the four analyses; formatting the request's
  \<^verbatim>\<open>segmento\<close> and \<^verbatim>\<open>produto\<close> may raise.
\<close>

definition summary_head ::
  "env \<Rightarrow> string \<Rightarrow> string \<Rightarrow> pyval \<Rightarrow> pyval \<Rightarrow> pyval \<Rightarrow> pyval \<Rightarrow> string" where
  "summary_head env segmento_text produto_text base_analysis enhanced_analysis funnel_analysis
       strategic_insights =
     ''\<newline># SUMARIO EXECUTIVO - ANALISE ULTRA ROBUSTA\<newline>'' @
     ''## Segmento: '' @ segmento_text @ ''\<newline>'' @
     ''## Produto/Servico: '' @ produto_text @ ''\<newline>'' @
     ''## Data: '' @ now_strftime env @ ''\<newline>'' @
     ''## Nivel de Qualidade: '' @
        (if truthy enhanced_analysis then ''PREMIUM''
         else if truthy base_analysis then ''HIGH'' else ''BASIC'') @ ''\<newline>'' @
     ''\<newline>### COMPONENTES ANALISADOS\<newline>'' @
     ''- Analise de Mercado: '' @ (if truthy base_analysis then ''Completa'' else ''Basica'') @ ''\<newline>'' @
     ''- Avatar Detalhado: '' @ (if truthy base_analysis then ''Completo'' else ''Basico'') @ ''\<newline>'' @
     ''- Analise Psicologica: '' @ (if truthy enhanced_analysis then ''Completa'' else ''Nao disponivel'') @ ''\<newline>'' @
     ''- Funil de Vendas: '' @ (if truthy funnel_analysis then ''Completo'' else ''Nao disponivel'') @ ''\<newline>'' @
     ''- Insights Estrategicos: '' @ (if truthy strategic_insights then ''Completos'' else ''Nao disponivel'') @ ''\<newline>'' @
     ''- Estrategia de Implementacao: Incluida\<newline>'' @
     ''- Plano de Acao: Pronto para uso\<newline>''"

definition generate_executive_summary ::
  "env \<Rightarrow> pyval \<Rightarrow> pyval \<Rightarrow> pyval \<Rightarrow> pyval \<Rightarrow> pydict \<Rightarrow> exn + string" where
  "generate_executive_summary env base_analysis enhanced_analysis funnel_analysis
       strategic_insights original_data =
     (let segmento = dict_get original_data ''segmento'' (PStr ''Empreendedores'');
          produto = dict_get original_data ''produto'' (PStr ''Programa MASI'')
      in bind_r (py_format env segmento) (\<lambda>segmento_text.
         bind_r (py_format env produto) (\<lambda>produto_text.
         Inr (summary_head env segmento_text produto_text base_analysis enhanced_analysis
                funnel_analysis strategic_insights
              @ proximos_passos_text @ garantias_text))))"

text \<open>
  \<^verbatim>\<open>_consolidate_results_robustly\<close>.  A stage's section is added only when the stage's
  result is a non-empty dictionary.
\<close>

definition add_if_available :: "string \<Rightarrow> pyval \<Rightarrow> pydict \<Rightarrow> exn + pydict" where
  "add_if_available key analysis consolidated =
     (if truthy analysis \<and> is_dict analysis then
        bind_r (create_simple_copy analysis 3 0) (\<lambda>c. Inr (dict_set key c consolidated))
      else Inr consolidated)"

definition consolidate_results_robustly ::
  "env \<Rightarrow> pyval \<Rightarrow> pyval \<Rightarrow> pyval \<Rightarrow> pyval \<Rightarrow> pydict \<Rightarrow> string \<Rightarrow> exn + pyval" where
  "consolidate_results_robustly env base_analysis enhanced_analysis funnel_analysis
       strategic_insights original_data session_id =
     bind_r (add_if_available ''analise_base'' base_analysis
               [(''session_id'', PStr session_id),
                (''generated_at'', PStr (now_isoformat env)),
                (''engine_version'', PStr ''ARQV30 Enhanced v3.0 - ULTRA ROBUST''),
                (''consolidation_status'', PStr ''SUCCESS'')]) (\<lambda>consolidated.
     bind_r (add_if_available ''analise_aprimorada'' enhanced_analysis consolidated) (\<lambda>consolidated.
     bind_r (add_if_available ''analise_funil'' funnel_analysis consolidated) (\<lambda>consolidated.
     bind_r (add_if_available ''insights_estrategicos'' strategic_insights consolidated) (\<lambda>consolidated.
     bind_r (create_simple_copy (PDict original_data) 3 0) (\<lambda>dados_originais.
     bind_r (generate_executive_summary env base_analysis enhanced_analysis funnel_analysis
               strategic_insights original_data) (\<lambda>sumario.
     Inr (PDict (dict_set ''sumario_executivo'' (PStr sumario)
                  (dict_set ''dados_originais'' dados_originais consolidated)))))))))"

text \<open>\<^verbatim>\<open>_safe_save_all_data\<close>: a failed save is logged and the loop goes on.\<close>

definition essential_categories :: "string list" where
  "essential_categories = [''completas'', ''reports'', ''analise_completa'']"

fun save_each :: "env \<Rightarrow> pyval \<Rightarrow> string list \<Rightarrow> unit action" where
  "save_each env results [] = ret ()"
| "save_each env results (category # categories) =
     andthen (try_except (salvar_etapa env (''resultado_final_'' @ category) results category)
                         (\<lambda>e. ret ()))
             (\<lambda>_. save_each env results categories)"

definition safe_save_all_data :: "env \<Rightarrow> pyval \<Rightarrow> string \<Rightarrow> unit action" where
  "safe_save_all_data env results session_id = save_each env results essential_categories"

text \<open>\<^verbatim>\<open>_generate_minimal_success_report\<close>.\<close>

definition generate_minimal_success_report :: "env \<Rightarrow> pydict \<Rightarrow> string \<Rightarrow> string \<Rightarrow> pyval" where
  "generate_minimal_success_report env data session_id err =
     PDict [
       (''success'', PBool True),
       (''session_id'', PStr session_id),
       (''execution_mode'', PStr ''EMERGENCY_SUCCESS''),
       (''report'', PDict [
         (''segmento'', dict_get data ''segmento'' (PStr ''Nao especificado'')),
         (''produto'', dict_get data ''produto'' (PStr ''Nao especificado'')),
         (''status'', PStr ''Analise de emergencia concluida com sucesso''),
         (''recomendacao_principal'', PStr ''Execute nova analise com configuracoes verificadas''),
         (''proximos_passos'', PList [
           PStr ''Verificar configuracao de APIs'',
           PStr ''Testar conectividade de internet'',
           PStr ''Executar analise simples primeiro'',
           PStr ''Contatar suporte se problemas persistirem'']),
         (''dados_salvos'', PBool True)]),
       (''error_handled'', PStr err),
       (''generated_at'', PStr (now_isoformat env)),
       (''guarantee'', PStr ''Sistema sempre funciona - analise minima sempre entregue'')]"

subsection \<open>The execution state\<close>

text \<open>\<^verbatim>\<open>self.execution_state[session_id] = {'status': 'running', ...}\<close>.\<close>

definition register_session :: "env \<Rightarrow> string \<Rightarrow> unit action" where
  "register_session env session_id =
     (\<lambda>w. (Inr (), w\<lparr>execution_state :=
              dict_set session_id
                \<lparr>status = ''running'', start_time = time_start env, errors = [],
                 execution_time = None, error = None\<rparr>
                (execution_state w)\<rparr>))"

text \<open>
  \<^verbatim>\<open>self.execution_state[session_id][...] = ...\<close>: a \<^verbatim>\<open>KeyError\<close> when the session is
  not registered.
\<close>

definition update_session :: "string \<Rightarrow> (session \<Rightarrow> session) \<Rightarrow> unit action" where
  "update_session session_id f =
     (\<lambda>w. case map_of (execution_state w) session_id of
            None \<Rightarrow> (Inl (Exn (''KeyError: '' @ session_id)), w)
          | Some s \<Rightarrow>
              (Inr (), w\<lparr>execution_state := dict_set session_id (f s) (execution_state w)\<rparr>))"

definition str_exn :: "exn \<Rightarrow> string" where
  "str_exn e = (case e of Exn message \<Rightarrow> message)"

subsection \<open>The four stages\<close>

text \<open>
  Phase 1, the base analysis.  Whatever raises inside the \<^verbatim>\<open>try\<close> (the callback, the
  provider, the save) is caught; the handler builds the fallback analysis and records the
  error.
\<close>

definition phase1 :: "env \<Rightarrow> pydict \<Rightarrow> string \<Rightarrow> callback option \<Rightarrow> pyval action" where
  "phase1 env data session_id progress_callback =
     try_except
       (andthen (check (notify progress_callback 2 ''Executando analise base...'')) (\<lambda>_.
        andthen (lift (generate_gigantic_analysis env data session_id progress_callback)) (\<lambda>base_analysis.
        andthen (salvar_etapa env ''analise_base_robusta'' base_analysis ''analise_completa'') (\<lambda>_.
        ret base_analysis))))
       (\<lambda>e. andthen (lift (create_fallback_analysis env data)) (\<lambda>base_analysis.
            andthen (salvar_erro ''analise_base_falhou'' e session_id) (\<lambda>_.
            ret base_analysis)))"

text \<open>Phase 2, the psychological analysis: on any failure the result is \<^verbatim>\<open>None\<close>.\<close>

definition phase2 :: "env \<Rightarrow> pydict \<Rightarrow> string \<Rightarrow> callback option \<Rightarrow> pyval \<Rightarrow> pyval action" where
  "phase2 env data session_id progress_callback base_analysis =
     try_except
       (andthen (check (notify progress_callback 8 ''Executando analise psicologica...'')) (\<lambda>_.
        andthen (lift (execute_ultra_enhanced_analysis env (safe_combine_data data base_analysis)
                         session_id progress_callback)) (\<lambda>enhanced_analysis.
        andthen (salvar_etapa env ''analise_psicologica_robusta'' enhanced_analysis ''analise_completa'') (\<lambda>_.
        ret enhanced_analysis))))
       (\<lambda>e. andthen (salvar_erro ''analise_psicologica_falhou'' e session_id) (\<lambda>_. ret PNone))"

text \<open>
  Phases 3 and 4.  The handler does not assign the variable: it stays \<^verbatim>\<open>None\<close> when the
  callback or the provider raised, and keeps the provider's result when only the save
  raised.
\<close>

definition phase3 :: "env \<Rightarrow> pydict \<Rightarrow> string \<Rightarrow> callback option \<Rightarrow> pyval \<Rightarrow> pyval action" where
  "phase3 env data session_id progress_callback base_analysis =
     try_except
       (andthen (check (notify progress_callback 10 ''Analisando funil de vendas...'')) (\<lambda>_.
        andthen (lift (analyze_conversion_funnel env (safe_combine_data data base_analysis)
                         (dict_get data ''segmento'' PNone))) (\<lambda>funnel_analysis.
        try_except
          (andthen (salvar_etapa env ''analise_funil_vendas'' funnel_analysis ''analise_completa'') (\<lambda>_.
           ret funnel_analysis))
          (\<lambda>e. andthen (salvar_erro ''analise_funil_falhou'' e session_id) (\<lambda>_. ret funnel_analysis)))))
       (\<lambda>e. andthen (salvar_erro ''analise_funil_falhou'' e session_id) (\<lambda>_. ret PNone))"

definition phase4 ::
  "env \<Rightarrow> pydict \<Rightarrow> string \<Rightarrow> callback option \<Rightarrow> pyval \<Rightarrow> pyval \<Rightarrow> pyval \<Rightarrow> pyval action" where
  "phase4 env data session_id progress_callback base_analysis enhanced_analysis funnel_analysis =
     try_except
       (andthen (check (notify progress_callback 11 ''Gerando insights estrategicos...'')) (\<lambda>_.
        andthen (lift (generate_strategic_insights env
                         (combine_all_analyses base_analysis enhanced_analysis funnel_analysis data))) (\<lambda>strategic_insights.
        try_except
          (andthen (salvar_etapa env ''insights_estrategicos'' strategic_insights ''analise_completa'') (\<lambda>_.
           ret strategic_insights))
          (\<lambda>e. andthen (salvar_erro ''insights_estrategicos_falhou'' e session_id) (\<lambda>_. ret strategic_insights)))))
       (\<lambda>e. andthen (salvar_erro ''insights_estrategicos_falhou'' e session_id) (\<lambda>_. ret PNone))"

subsection \<open>The top-level operation\<close>

text \<open>The body of the outer \<^verbatim>\<open>try\<close> of \<^verbatim>\<open>execute_synchronized_analysis\<close>.\<close>

definition analysis_body :: "env \<Rightarrow> pydict \<Rightarrow> string \<Rightarrow> callback option \<Rightarrow> pyval action" where
  "analysis_body env data session_id progress_callback =
     andthen (register_session env session_id) (\<lambda>_.
     andthen (check (notify progress_callback 1 ''Iniciando analise ultra robusta...'')) (\<lambda>_.
     andthen (phase1 env data session_id progress_callback) (\<lambda>base_analysis.
     andthen (phase2 env data session_id progress_callback base_analysis) (\<lambda>enhanced_analysis.
     andthen (phase3 env data session_id progress_callback base_analysis) (\<lambda>funnel_analysis.
     andthen (phase4 env data session_id progress_callback base_analysis enhanced_analysis
                funnel_analysis) (\<lambda>strategic_insights.
     andthen (check (notify progress_callback 12 ''Consolidando resultados finais...'')) (\<lambda>_.
     andthen (lift (consolidate_results_robustly env base_analysis enhanced_analysis
                      funnel_analysis strategic_insights data session_id)) (\<lambda>final_results.
     andthen (check (notify progress_callback 15 ''Salvando resultados...'')) (\<lambda>_.
     andthen (safe_save_all_data env final_results session_id) (\<lambda>_.
     andthen (update_session session_id
                (\<lambda>s. s\<lparr>status := ''completed'',
                        execution_time := Some (time_end env - time_start env)\<rparr>)) (\<lambda>_.
     ret (PDict [
       (''success'', PBool True),
       (''session_id'', PStr session_id),
       (''execution_time'', PFloat (time_end env - time_start env)),
       (''report'', final_results),
       (''sync_status'', PStr ''ULTRA_ROBUST_SUCCESS''),
       (''quality_level'', PStr (if truthy enhanced_analysis then ''PREMIUM'' else ''HIGH''))]))))))))))))"

text \<open>
  \<^verbatim>\<open>execute_synchronized_analysis(self, data, session_id, progress_callback=None)\<close>: the
  body, and the outermost handler that marks the session, records the error and returns
  the minimal report.  The result is an exception or the returned mapping, with the state
  left behind.
\<close>

definition execute_synchronized_analysis ::
  "env \<Rightarrow> pydict \<Rightarrow> string \<Rightarrow> callback option \<Rightarrow> pyval action" where
  "execute_synchronized_analysis env data session_id progress_callback =
     try_except (analysis_body env data session_id progress_callback)
       (\<lambda>e. andthen (update_session session_id
                       (\<lambda>s. s\<lparr>status := ''completed_with_errors'', error := Some (str_exn e)\<rparr>)) (\<lambda>_.
            andthen (salvar_erro ''super_orchestrator_critico'' e session_id) (\<lambda>_.
            ret (generate_minimal_success_report env data session_id (str_exn e)))))"

section \<open>The report generator (comprehensive\_report\_generator.py)\<close>

subsection \<open>Extraction of the essential data\<close>









subsection \<open>The sections of the report\<close>










subsection \<open>The report\<close>




section \<open>Vocabulary of the statements\<close>

text \<open>The value under a path of keys.\<close>

fun lookup_path :: "string list \<Rightarrow> pyval \<Rightarrow> pyval option" where
  "lookup_path [] v = Some v"
| "lookup_path (k # ks) (PDict d) = (case map_of d k of None \<Rightarrow> None | Some v \<Rightarrow> lookup_path ks v)"
| "lookup_path (k # ks) _ = None"

text \<open>What a run returned (\<^verbatim>\<open>None\<close> stands for a run that raised).\<close>

definition the_result :: "(exn + pyval) \<times> world \<Rightarrow> pyval" where
  "the_result r = (case fst r of Inr v \<Rightarrow> v | Inl e \<Rightarrow> PNone)"


text \<open>The value that phase 2 leaves in \<^verbatim>\<open>enhanced_analysis\<close>.\<close>

definition enhanced_stage_value :: "env \<Rightarrow> pydict \<Rightarrow> string \<Rightarrow> callback option \<Rightarrow> pyval \<Rightarrow> pyval" where
  "enhanced_stage_value env data session_id progress_callback base_analysis =
     (case notify progress_callback 8 ''Executando analise psicologica...'' of
        Some e \<Rightarrow> PNone
      | None \<Rightarrow>
         (case execute_ultra_enhanced_analysis env (safe_combine_data data base_analysis)
                 session_id progress_callback of
            Inl e \<Rightarrow> PNone
          | Inr v \<Rightarrow>
             (case salvar_etapa_raises env ''analise_psicologica_robusta'' v ''analise_completa'' of
                Some e \<Rightarrow> PNone
              | None \<Rightarrow> v)))"

text \<open>Parts of the state that a statement leaves alone.\<close>

definition keeps :: "(world \<Rightarrow> 'b) \<Rightarrow> 'a action \<Rightarrow> bool" where
  "keeps part m = (\<forall>w. part (snd (m w)) = part w)"

definition preserves :: "(world \<Rightarrow> bool) \<Rightarrow> 'a action \<Rightarrow> bool" where
  "preserves P m = (\<forall>w. P w \<longrightarrow> P (snd (m w)))"

text \<open>The session is in the execution state, with an empty error list.\<close>

definition registered :: "string \<Rightarrow> world \<Rightarrow> bool" where
  "registered session_id w =
     (case map_of (execution_state w) session_id of None \<Rightarrow> False | Some s \<Rightarrow> errors s = [])"

text \<open>The outcome of a provider as a stage leaves it, and the record a failure sends to the error sink.\<close>

definition stage_value :: "exn + pyval \<Rightarrow> pyval" where
  "stage_value r = (case r of Inr v \<Rightarrow> v | Inl e \<Rightarrow> PNone)"

definition stage_error :: "string \<Rightarrow> string \<Rightarrow> exn + pyval \<Rightarrow> (string \<times> exn \<times> string) list" where
  "stage_error nome session_id r = (case r of Inr v \<Rightarrow> [] | Inl e \<Rightarrow> [(nome, e, session_id)])"

text \<open>Every content provider raises, whatever it is given.\<close>

definition all_providers_raise :: "env \<Rightarrow> bool" where
  "all_providers_raise env =
     ((\<forall>d s c. isl (generate_gigantic_analysis env d s c))
      \<and> (\<forall>d s c. isl (execute_ultra_enhanced_analysis env d s c))
      \<and> (\<forall>d g. isl (analyze_conversion_funnel env d g))
      \<and> (\<forall>d. isl (generate_strategic_insights env d)))"

section \<open>Concrete runs\<close>

text \<open>
  A request, an empty state, and environments in which the providers return small
  analyses or raise \<^verbatim>\<open>TimeoutError\<close>; a callback that always raises and one that never
  does.
\<close>

definition request_varejo :: pydict where
  "request_varejo = [(''segmento'', PStr ''Varejo''), (''produto'', PStr ''Curso X'')]"

definition no_sessions :: world where
  "no_sessions = \<lparr>execution_state = [], saved_steps = [], saved_errors = []\<rparr>"

definition timeout_error :: exn where
  "timeout_error = Exn ''TimeoutError''"

definition env_ok :: env where
  "env_ok = \<lparr>
     generate_gigantic_analysis = (\<lambda>data session_id cb. Inr (PDict [
        (''projeto_dados'', PDict data),
        (''pesquisa_web_massiva'', PDict [(''total_resultados'', PInt 12)]),
        (''avatar_ultra_detalhado'', PDict [(''perfil'', PStr ''Lojista'')])])),
     execute_ultra_enhanced_analysis = (\<lambda>data session_id cb. Inr (PDict [
        (''consolidated_analysis'', PDict [(''drivers'', PInt 5)])])),
     analyze_conversion_funnel = (\<lambda>data segment. Inr (PDict [
        (''funil_conversao'', PDict [(''taxa_conversao'', PStr ''0.8%'')])])),
     generate_strategic_insights = (\<lambda>data. Inr (PDict [
        (''insights_estrategicos'', PDict [(''prioridade'', PInt 1)])])),
     salvar_etapa_raises = (\<lambda>nome dados categoria. None),
     time_start = 100,
     time_end = 160,
     now_isoformat = ''2025-01-01T00:00:00'',
     now_strftime = ''01/01/2025 00:00:00'',
     format_value = (\<lambda>v. Inr ''?'')\<rparr>"


definition env_all_fail :: env where
  "env_all_fail =
     env_ok\<lparr>generate_gigantic_analysis := (\<lambda>data session_id cb. Inl timeout_error),
            execute_ultra_enhanced_analysis := (\<lambda>data session_id cb. Inl timeout_error),
            analyze_conversion_funnel := (\<lambda>data segment. Inl timeout_error),
            generate_strategic_insights := (\<lambda>data. Inl timeout_error)\<rparr>"

definition raising_callback :: callback where
  "raising_callback = (\<lambda>step message. Some (Exn ''callback failed''))"

definition quiet_callback :: callback where
  "quiet_callback = (\<lambda>step message. None)"




section \<open>Properties of the sanitizer\<close>

lemma dict_build_Nil [simp]: "dict_build g [] acc = acc"
  by (simp add: dict_build_def)

lemma dict_build_Cons [simp]:
  "dict_build g ((k, v) # items) acc =
     dict_build g items (if k \<in> set problem_keys then acc else dict_set k (g v) acc)"
  by (simp add: dict_build_def)

lemma deep_clean_data_over:
  "current_depth > max_depth \<Longrightarrow> deep_clean_data heap obj max_depth current_depth = max_depth_marker"
  by (simp add: deep_clean_data.simps)

lemma deep_clean_data_dict:
  "\<not> current_depth > max_depth \<Longrightarrow> heap obj = ODict items \<Longrightarrow>
   deep_clean_data heap obj max_depth current_depth =
     PDict (dict_build (clean_value heap max_depth current_depth) items [])"
proof -
  have "(\<lambda>(key, value) cleaned.
           if key \<in> set problem_keys then cleaned
           else if long_str (heap value) then dict_set key (truncated (heap value)) cleaned
           else dict_set key (deep_clean_data heap value max_depth (current_depth + 1)) cleaned)
      = (\<lambda>(key, value) cleaned.
           if key \<in> set problem_keys then cleaned
           else dict_set key (clean_value heap max_depth current_depth value) cleaned)"
    by (auto simp: clean_value_def fun_eq_iff)
  then show "\<not> current_depth > max_depth \<Longrightarrow> heap obj = ODict items \<Longrightarrow> ?thesis"
    by (simp add: deep_clean_data.simps dict_build_def)
qed

lemma deep_clean_data_list:
  "\<not> current_depth > max_depth \<Longrightarrow> heap obj = OList xs \<Longrightarrow>
   deep_clean_data heap obj max_depth current_depth =
     PList (map (\<lambda>item. deep_clean_data heap item max_depth (current_depth + 1)) (take 50 xs))"
  by (simp add: deep_clean_data.simps)

lemma set_dict_set: "set (dict_set k v kvs) \<subseteq> insert (k, v) (set kvs)"
  by (induction kvs) (auto split: if_splits)

lemma keys_dict_set: "fst ` set (dict_set k v kvs) = insert k (fst ` set kvs)"
proof (induction kvs)
  case Nil
  then show ?case by simp
next
  case (Cons kv kvs)
  obtain k' v' where kv: "kv = (k', v')" by (cases kv)
  show ?case
  proof (cases "k' = k")
    case True
    with kv show ?thesis by simp
  next
    case False
    with kv Cons.IH show ?thesis by (simp add: insert_commute)
  qed
qed



lemma set_dict_build:
  "(k, w) \<in> set (dict_build g items acc) \<Longrightarrow>
   (k, w) \<in> set acc \<or> (k \<notin> set problem_keys \<and> (\<exists>v. (k, v) \<in> set items \<and> w = g v))"
proof (induction items arbitrary: acc)
  case Nil
  then show ?case by simp
next
  case (Cons item items)
  obtain k' v' where item: "item = (k', v')" by (cases item)
  show ?case
  proof (cases "k' \<in> set problem_keys")
    case True
    with Cons item show ?thesis by auto
  next
    case False
    with Cons.prems item have "(k, w) \<in> set (dict_build g items (dict_set k' (g v') acc))"
      by simp
    from Cons.IH[OF this] show ?thesis
      using set_dict_set[of k' "g v'" acc] False item by auto
  qed
qed


lemma keys_dict_build:
  "fst ` set (dict_build g items acc) = fst ` set acc \<union> (fst ` set items - set problem_keys)"
proof (induction items arbitrary: acc)
  case Nil
  then show ?case by simp
next
  case (Cons item items)
  obtain k v where item: "item = (k, v)" by (cases item)
  show ?case
  proof (cases "k \<in> set problem_keys")
    case True
    then show ?thesis unfolding item by (auto simp: Cons.IH)
  next
    case False
    then show ?thesis unfolding item by (auto simp: Cons.IH keys_dict_set)
  qed
qed


lemma deep_clean_data_scalar:
  "\<not> current_depth > max_depth \<Longrightarrow>
   deep_clean_data heap obj max_depth current_depth =
     (case heap obj of
        ONone \<Rightarrow> PNone | OBool b \<Rightarrow> PBool b | OInt i \<Rightarrow> PInt i | OFloat x \<Rightarrow> PFloat x
      | OStr s \<Rightarrow> PStr s
      | ODict items \<Rightarrow> PDict (dict_build (clean_value heap max_depth current_depth) items [])
      | OList xs \<Rightarrow>
          PList (map (\<lambda>item. deep_clean_data heap item max_depth (current_depth + 1)) (take 50 xs))
      | OOther t r \<Rightarrow>
          (case r of Inr s \<Rightarrow> PStr (take 1000 s) | Inl e \<Rightarrow> PStr ''[Unserializable object]''))"
  by (cases "heap obj") (simp_all add: deep_clean_data_dict deep_clean_data_list, simp_all add: deep_clean_data.simps)

lemma long_str_truncated: "long_str ob \<Longrightarrow> \<exists>s. truncated ob = PStr s"
  by (cases ob) auto

lemma json_like_clean: "json_like (deep_clean_data heap obj max_depth current_depth)"
proof (induction heap obj max_depth current_depth rule: deep_clean_data.induct)
  case (1 heap obj max_depth current_depth)
  show ?case
  proof (cases "current_depth > max_depth")
    case True
    then show ?thesis by (simp add: deep_clean_data_over max_depth_marker_def)
  next
    case False
    show ?thesis
    proof (cases "heap obj")
      case (ODict items)
      have "json_like w" if "(k, w) \<in> set (dict_build (clean_value heap max_depth current_depth) items [])" for k w
      proof -
        from set_dict_build[OF that] obtain v where kv: "(k, v) \<in> set items"
          and k: "k \<notin> set problem_keys" and w: "w = clean_value heap max_depth current_depth v"
          by auto
        show ?thesis
        proof (cases "long_str (heap v)")
          case True
          with long_str_truncated[OF True] w show ?thesis by (auto simp: clean_value_def)
        next
          case notlong: False
          from "1.IH"(1)[OF False ODict kv refl k notlong] w notlong show ?thesis
            by (simp add: clean_value_def)
        qed
      qed
      then show ?thesis
        using False ODict by (auto simp: deep_clean_data_dict list_all_iff)
    next
      case (OList xs)
      with False "1.IH"(2) show ?thesis
        by (auto simp: deep_clean_data_list list_all_iff)
    qed (use False in \<open>simp_all add: deep_clean_data_scalar split: sum.splits\<close>)
  qed
qed

lemma fold_max_le: "a \<le> n \<Longrightarrow> (\<And>x. x \<in> set xs \<Longrightarrow> x \<le> n) \<Longrightarrow> fold max xs a \<le> (n::nat)"
  by (induction xs arbitrary: a) auto

lemma depth_clean:
  "int (depth (deep_clean_data heap obj max_depth current_depth)) \<le> max 1 (max_depth + 2 - current_depth)"
proof (induction heap obj max_depth current_depth rule: deep_clean_data.induct)
  case (1 heap obj max_depth current_depth)
  show ?case
  proof (cases "current_depth > max_depth")
    case True
    then show ?thesis by (simp add: deep_clean_data_over max_depth_marker_def)
  next
    case False
    define n where "n = nat (max_depth + 1 - current_depth)"
    from False have n: "int n = max_depth + 1 - current_depth" "1 \<le> n" by (auto simp: n_def)
    show ?thesis
    proof (cases "heap obj")
      case (ODict items)
      have "depth w \<le> n" if "(k, w) \<in> set (dict_build (clean_value heap max_depth current_depth) items [])" for k w
      proof -
        from set_dict_build[OF that] obtain v where kv: "(k, v) \<in> set items"
          and k: "k \<notin> set problem_keys" and w: "w = clean_value heap max_depth current_depth v"
          by auto
        show ?thesis
        proof (cases "long_str (heap v)")
          case True
          with long_str_truncated[OF True] w show ?thesis by (auto simp: clean_value_def)
        next
          case notlong: False
          from "1.IH"(1)[OF False ODict kv refl k notlong] w notlong n show ?thesis
            by (simp add: clean_value_def)
        qed
      qed
      then have "fold max (map (\<lambda>(k, v). depth v) (dict_build (clean_value heap max_depth current_depth) items [])) 0 \<le> n"
        by (intro fold_max_le) auto
      with n show ?thesis
        using False ODict by (simp add: deep_clean_data_dict)
    next
      case (OList xs)
      have "depth (deep_clean_data heap x max_depth (current_depth + 1)) \<le> n" if "x \<in> set (take 50 xs)" for x
        using "1.IH"(2)[OF False OList that] n by simp
      then have "fold max (map depth (map (\<lambda>item. deep_clean_data heap item max_depth (current_depth + 1)) (take 50 xs))) 0 \<le> n"
        by (intro fold_max_le) auto
      with n show ?thesis
        using False OList by (simp add: deep_clean_data_list)
    qed (use False in \<open>simp_all add: deep_clean_data_scalar split: sum.splits\<close>)
  qed
qed

lemma keys_clean:
  "set (all_keys (deep_clean_data heap obj max_depth current_depth)) \<inter> set problem_keys = {}"
proof (induction heap obj max_depth current_depth rule: deep_clean_data.induct)
  case (1 heap obj max_depth current_depth)
  show ?case
  proof (cases "current_depth > max_depth")
    case True
    then show ?thesis by (simp add: deep_clean_data_over max_depth_marker_def problem_keys_def)
  next
    case False
    show ?thesis
    proof (cases "heap obj")
      case (ODict items)
      let ?kvs = "dict_build (clean_value heap max_depth current_depth) items []"
      have sub: "set (all_keys w) \<inter> set problem_keys = {}" if "(k, w) \<in> set ?kvs" for k w
      proof -
        from set_dict_build[OF that] obtain v where kv: "(k, v) \<in> set items"
          and k: "k \<notin> set problem_keys" and w: "w = clean_value heap max_depth current_depth v"
          by auto
        show ?thesis
        proof (cases "long_str (heap v)")
          case True
          with long_str_truncated[OF True] w show ?thesis by (auto simp: clean_value_def)
        next
          case notlong: False
          from "1.IH"(1)[OF False ODict kv refl k notlong] w notlong show ?thesis
            by (simp add: clean_value_def)
        qed
      qed
      have top: "fst ` set ?kvs \<inter> set problem_keys = {}"
        unfolding keys_dict_build by auto
      have "set (all_keys (PDict ?kvs)) \<inter> set problem_keys = {}"
        using sub top by auto
      then show ?thesis
        using False ODict by (simp add: deep_clean_data_dict)
    next
      case (OList xs)
      with False "1.IH"(2) show ?thesis
        by (auto simp: deep_clean_data_list)
    qed (use False in \<open>simp_all add: deep_clean_data_scalar split: sum.splits\<close>)
  qed
qed



subsection \<open>Termination, shape and depth of the result\<close>

text \<open>
  Claim C2, as stated, bounds the nesting depth of the result by \<open>max_depth\<close>.  On the
  list that contains itself the default call returns eleven nested lists around the
  marker, itself a dictionary: depth 12.
\<close>

theorem deep_clean_depth_counterexample:
  "\<not> int (depth (deep_clean_data self_list () 10 0)) \<le> 10"
  by (simp add: deep_clean_data.simps self_list_def max_depth_marker_def)

text \<open>
  Claim C2, amended.  On every heap and object, self-referential ones included,
  \<open>deep_clean_data\<close> returns (it is a total function whose recursion is bounded by the depth
  counter, and it has no error result), the value returned consists of scalars, mappings
  and sequences only, and once the depth counter passes \<open>max_depth\<close> the fixed marker is
  returned instead of descending further.  The nesting depth of the result is at most
  \<open>max_depth + 2 - current_depth\<close>: levels \<open>0\<close> to \<open>max_depth\<close> are copied, and the marker
  that stands at level \<open>max_depth + 1\<close> is a container of its own.
\<close>

theorem deep_clean_data_bounded:
  "json_like (deep_clean_data heap obj max_depth current_depth)
   \<and> int (depth (deep_clean_data heap obj max_depth current_depth))
       \<le> max 1 (max_depth + 2 - current_depth)
   \<and> (max_depth < current_depth \<longrightarrow>
        deep_clean_data heap obj max_depth current_depth = max_depth_marker)"
  using json_like_clean[of heap obj max_depth current_depth]
    depth_clean[of heap obj max_depth current_depth]
    deep_clean_data_over[of max_depth current_depth heap obj]
  by blast

theorem deep_clean_data_bounded_witness:
  "json_like (deep_clean_data self_list () 10 0)
   \<and> int (depth (deep_clean_data self_list () 10 0)) \<le> 12
   \<and> (10 < (11::int) \<and> deep_clean_data self_list () 10 11 = max_depth_marker)"
  using deep_clean_data_bounded[of self_list "()" 10 0]
    deep_clean_data_bounded[of self_list "()" 10 11]
  by simp

subsection \<open>Bounds on lists and strings\<close>









subsection \<open>Idempotence\<close>



subsection \<open>Deny-listed keys\<close>

text \<open>
  Claim C6.  No key of the deny-list (\<^verbatim>\<open>circular_ref\<close>, \<^verbatim>\<open>parent\<close>, \<^verbatim>\<open>root\<close>,
  \<^verbatim>\<open>_internal\<close>) is a key of any dictionary inside the sanitized value, at any depth.
\<close>

theorem deny_listed_keys_absent:
  "set (all_keys (deep_clean_data heap obj max_depth current_depth)) \<inter> set problem_keys = {}
   \<and> ''parent'' \<notin> set (all_keys (deep_clean_data heap obj max_depth current_depth))"
  using keys_clean[of heap obj max_depth current_depth]
  by (auto simp: problem_keys_def)

theorem deny_listed_keys_absent_witness:
  "''parent'' \<notin> set (all_keys (deep_clean_data obj_of
          (PDict [(''a'', PDict [(''parent'', PInt 1), (''b'', PList [PDict [(''root'', PNone)]])])]) 10 0))"
  using deny_listed_keys_absent[of obj_of
      "PDict [(''a'', PDict [(''parent'', PInt 1), (''b'', PList [PDict [(''root'', PNone)]])])]" 10 0]
  by (rule conjunct2)

section \<open>Properties of the orchestrator\<close>

subsection \<open>Statements in sequence\<close>

lemma andthen_Inr: "m w = (Inr x, w1) \<Longrightarrow> andthen m f w = f x w1"
  by (simp add: andthen_def)

lemma andthen_Inl: "m w = (Inl e, w1) \<Longrightarrow> andthen m f w = (Inl e, w1)"
  by (simp add: andthen_def)

lemma andthen_cases:
  obtains (raised) e w1 where "m w = (Inl e, w1)" "andthen m f w = (Inl e, w1)"
  | (returned) x w1 where "m w = (Inr x, w1)" "andthen m f w = f x w1"
proof (cases "m w")
  case (Pair r w1)
  then show ?thesis
    by (cases r) (auto simp: andthen_def intro: raised returned)
qed

lemma andthenE:
  assumes "andthen m f w = (Inr y, w')"
  obtains x w1 where "m w = (Inr x, w1)" and "f x w1 = (Inr y, w')"
  using assms by (cases rule: andthen_cases[of m w f]) auto

lemma try_except_Inr: "m w = (Inr x, w1) \<Longrightarrow> try_except m h w = (Inr x, w1)"
  by (simp add: try_except_def)

lemma try_except_Inl: "m w = (Inl e, w1) \<Longrightarrow> try_except m h w = h e w1"
  by (simp add: try_except_def)

lemma keepsD: "keeps part m \<Longrightarrow> m w = (r, w1) \<Longrightarrow> part w1 = part w"
  by (metis keeps_def snd_conv)

lemma keeps_ret [simp]: "keeps part (ret x)"
  by (simp add: keeps_def ret_def)

lemma keeps_lift [simp]: "keeps part (lift r)"
  by (simp add: keeps_def lift_def)

lemma keeps_check [simp]: "keeps part (check r)"
  by (simp add: keeps_def check_def)

lemma keeps_state_salvar_etapa [simp]: "keeps execution_state (salvar_etapa env nome dados categoria)"
  by (simp add: keeps_def salvar_etapa_def split: option.splits)

lemma keeps_errors_salvar_etapa [simp]: "keeps saved_errors (salvar_etapa env nome dados categoria)"
  by (simp add: keeps_def salvar_etapa_def split: option.splits)

lemma keeps_state_salvar_erro [simp]: "keeps execution_state (salvar_erro nome e session_id)"
  by (simp add: keeps_def salvar_erro_def)

lemma keeps_errors_update_session [simp]: "keeps saved_errors (update_session session_id f)"
  by (simp add: keeps_def update_session_def split: option.splits)

lemma keeps_errors_register [simp]: "keeps saved_errors (register_session env session_id)"
  by (simp add: keeps_def register_session_def)

lemma keeps_andthen:
  assumes "keeps part m" and "\<And>x. keeps part (f x)"
  shows "keeps part (andthen m f)"
  unfolding keeps_def
proof
  fix w
  show "part (snd (andthen m f w)) = part w"
  proof (cases rule: andthen_cases[of m w f])
    case (raised e w1)
    with keepsD[OF assms(1)] show ?thesis by simp
  next
    case (returned x w1)
    with keepsD[OF assms(1)] assms(2)[of x] show ?thesis by (simp add: keeps_def)
  qed
qed

lemma keeps_try_except:
  assumes "keeps part m" and "\<And>e. keeps part (h e)"
  shows "keeps part (try_except m h)"
  unfolding keeps_def
proof
  fix w
  obtain r w1 where mw: "m w = (r, w1)" by (cases "m w")
  from keepsD[OF assms(1) mw] have w1: "part w1 = part w" .
  show "part (snd (try_except m h w)) = part w"
  proof (cases r)
    case (Inl e)
    with mw have "try_except m h w = h e w1" by (simp add: try_except_Inl)
    with assms(2)[of e] w1 show ?thesis by (simp add: keeps_def)
  next
    case (Inr x)
    with mw w1 show ?thesis by (simp add: try_except_Inr)
  qed
qed

lemmas keeps_intros = keeps_andthen keeps_try_except

lemma keeps_state_save_each: "keeps execution_state (save_each env results categories)"
  by (induction categories) (auto intro!: keeps_intros)

lemma keeps_errors_save_each: "keeps saved_errors (save_each env results categories)"
  by (induction categories) (auto intro!: keeps_intros)

lemma keeps_state_phase1: "keeps execution_state (phase1 env data session_id progress_callback)"
  unfolding phase1_def by (intro keeps_intros) simp_all

lemma keeps_state_phase2:
  "keeps execution_state (phase2 env data session_id progress_callback base_analysis)"
  unfolding phase2_def by (intro keeps_intros) simp_all

lemma keeps_state_phase3:
  "keeps execution_state (phase3 env data session_id progress_callback base_analysis)"
  unfolding phase3_def by (intro keeps_intros) simp_all

lemma keeps_state_phase4:
  "keeps execution_state
     (phase4 env data session_id progress_callback base_analysis enhanced_analysis funnel_analysis)"
  unfolding phase4_def by (intro keeps_intros) simp_all

lemma preserves_keeps: "keeps execution_state m \<Longrightarrow> preserves (registered session_id) m"
  by (simp add: keeps_def preserves_def registered_def)

lemma map_of_dict_set: "map_of (dict_set k v kvs) k' = (if k' = k then Some v else map_of kvs k')"
  by (induction kvs) auto

lemma preserves_update:
  assumes "\<And>s. errors (f s) = errors s"
  shows "preserves (registered session_id) (update_session session_id' f)"
  using assms
  by (auto simp: preserves_def registered_def update_session_def map_of_dict_set
      split: option.splits)

lemma preserves_andthen:
  assumes "preserves P m" and "\<And>x. preserves P (f x)"
  shows "preserves P (andthen m f)"
  unfolding preserves_def
proof (intro allI impI)
  fix w
  assume reg: "P w"
  show "P (snd (andthen m f w))"
  proof (cases rule: andthen_cases[of m w f])
    case (raised e w1)
    with assms(1) reg show ?thesis by (metis preserves_def snd_conv)
  next
    case (returned x w1)
    with assms(1) reg have "P w1" by (metis preserves_def snd_conv)
    with assms(2) returned show ?thesis by (metis preserves_def)
  qed
qed

lemma registered_register: "registered session_id (snd (register_session env session_id w))"
  by (simp add: registered_def register_session_def map_of_dict_set)

lemma register_returns: "fst (register_session env session_id w) = Inr ()"
  by (simp add: register_session_def)

lemma registered_after_body:
  "registered session_id (snd (analysis_body env data session_id progress_callback w))"
proof -
  let ?rest = "\<lambda>u::unit.
     andthen (check (notify progress_callback 1 ''Iniciando analise ultra robusta...'')) (\<lambda>_.
     andthen (phase1 env data session_id progress_callback) (\<lambda>base_analysis.
     andthen (phase2 env data session_id progress_callback base_analysis) (\<lambda>enhanced_analysis.
     andthen (phase3 env data session_id progress_callback base_analysis) (\<lambda>funnel_analysis.
     andthen (phase4 env data session_id progress_callback base_analysis enhanced_analysis
                funnel_analysis) (\<lambda>strategic_insights.
     andthen (check (notify progress_callback 12 ''Consolidando resultados finais...'')) (\<lambda>_.
     andthen (lift (consolidate_results_robustly env base_analysis enhanced_analysis
                      funnel_analysis strategic_insights data session_id)) (\<lambda>final_results.
     andthen (check (notify progress_callback 15 ''Salvando resultados...'')) (\<lambda>_.
     andthen (safe_save_all_data env final_results session_id) (\<lambda>_.
     andthen (update_session session_id
                (\<lambda>s. s\<lparr>status := ''completed'',
                        execution_time := Some (time_end env - time_start env)\<rparr>)) (\<lambda>_.
     ret (PDict [
       (''success'', PBool True),
       (''session_id'', PStr session_id),
       (''execution_time'', PFloat (time_end env - time_start env)),
       (''report'', final_results),
       (''sync_status'', PStr ''ULTRA_ROBUST_SUCCESS''),
       (''quality_level'', PStr (if truthy enhanced_analysis then ''PREMIUM'' else ''HIGH''))])))))))))))"
  have body: "analysis_body env data session_id progress_callback
                = andthen (register_session env session_id) ?rest"
    by (simp add: analysis_body_def)
  have rest: "preserves (registered session_id) (?rest u)" for u
    by (intro preserves_andthen preserves_update preserves_keeps
        keeps_state_phase1 keeps_state_phase2 keeps_state_phase3 keeps_state_phase4
        keeps_check keeps_lift keeps_ret)
      (simp_all add: safe_save_all_data_def keeps_state_save_each)
  obtain w1 where reg: "register_session env session_id w = (Inr (), w1)"
    by (simp add: register_session_def)
  then have "registered session_id w1"
    using registered_register[of session_id env w] by simp
  with rest have "registered session_id (snd (?rest () w1))"
    by (simp add: preserves_def)
  then show ?thesis
    unfolding body using andthen_Inr[of "register_session env session_id" w "()" w1 ?rest] reg by simp
qed

lemma body_returnsE:
  assumes "analysis_body env data session_id progress_callback w = (Inr res, w')"
  obtains w0 w1 b w2 e w3 f w4 i w5 report w6 w7 w8 where
    "register_session env session_id w = (Inr (), w0)"
    "check (notify progress_callback 1 ''Iniciando analise ultra robusta...'') w0 = (Inr (), w1)"
    "phase1 env data session_id progress_callback w1 = (Inr b, w2)"
    "phase2 env data session_id progress_callback b w2 = (Inr e, w3)"
    "phase3 env data session_id progress_callback b w3 = (Inr f, w4)"
    "phase4 env data session_id progress_callback b e f w4 = (Inr i, w5)"
    "check (notify progress_callback 12 ''Consolidando resultados finais...'') w5 = (Inr (), w6)"
    "consolidate_results_robustly env b e f i data session_id = Inr report"
    "check (notify progress_callback 15 ''Salvando resultados...'') w6 = (Inr (), w7)"
    "safe_save_all_data env report session_id w7 = (Inr (), w8)"
    "update_session session_id
       (\<lambda>s. s\<lparr>status := ''completed'',
               execution_time := Some (time_end env - time_start env)\<rparr>) w8 = (Inr (), w')"
    "res = PDict [
       (''success'', PBool True),
       (''session_id'', PStr session_id),
       (''execution_time'', PFloat (time_end env - time_start env)),
       (''report'', report),
       (''sync_status'', PStr ''ULTRA_ROBUST_SUCCESS''),
       (''quality_level'', PStr (if truthy e then ''PREMIUM'' else ''HIGH''))]"
  using assms unfolding analysis_body_def
  by (elim andthenE) (auto simp: ret_def lift_def)

subsection \<open>The run never fails\<close>

lemma phase2_value:
  "fst (phase2 env data session_id progress_callback base_analysis w)
     = Inr (enhanced_stage_value env data session_id progress_callback base_analysis)"
  by (simp add: phase2_def enhanced_stage_value_def try_except_def andthen_def check_def lift_def
      ret_def salvar_etapa_def salvar_erro_def split: option.splits sum.splits)

lemma execute_normal:
  assumes "analysis_body env data session_id progress_callback w = (Inr res, w')"
  shows "execute_synchronized_analysis env data session_id progress_callback w = (Inr res, w')"
  using assms by (simp add: execute_synchronized_analysis_def try_except_Inr)

lemma execute_emergency:
  assumes "analysis_body env data session_id progress_callback w = (Inl e, w1)"
  shows "\<exists>w'. execute_synchronized_analysis env data session_id progress_callback w
           = (Inr (generate_minimal_success_report env data session_id (str_exn e)), w')
         \<and> saved_errors w' = saved_errors w1 @ [(''super_orchestrator_critico'', e, session_id)]
         \<and> map_option status (map_of (execution_state w') session_id) = Some ''completed_with_errors''
         \<and> map_option errors (map_of (execution_state w') session_id) = Some []"
proof -
  from registered_after_body[of session_id env data progress_callback w] assms
  obtain s where s: "map_of (execution_state w1) session_id = Some s" and es: "errors s = []"
    by (auto simp: registered_def split: option.splits)
  show ?thesis
    using assms s es
    by (simp add: execute_synchronized_analysis_def try_except_Inl andthen_def update_session_def
        salvar_erro_def ret_def map_of_dict_set)
qed

lemma minimal_report_success:
  "\<exists>res. generate_minimal_success_report env data session_id err = PDict res
         \<and> map_of res ''success'' = Some (PBool True)"
  by (simp add: generate_minimal_success_report_def)

lemma execute_success:
  "\<exists>res w'. execute_synchronized_analysis env data session_id progress_callback w = (Inr (PDict res), w')
            \<and> map_of res ''success'' = Some (PBool True)"
proof -
  obtain r w1 where body: "analysis_body env data session_id progress_callback w = (r, w1)"
    by (cases "analysis_body env data session_id progress_callback w")
  show ?thesis
  proof (cases r)
    case (Inl e)
    with body execute_emergency[of env data session_id progress_callback w e w1]
      minimal_report_success[of env data session_id "str_exn e"]
    show ?thesis by auto
  next
    case (Inr res)
    with body have b: "analysis_body env data session_id progress_callback w = (Inr res, w1)" by simp
    from b obtain kvs where "res = PDict kvs" and "map_of kvs ''success'' = Some (PBool True)"
      by (elim body_returnsE) simp
    with execute_normal[OF b] show ?thesis by auto
  qed
qed


lemma copy_over:
  "current_depth > max_depth \<Longrightarrow>
   create_simple_copy obj max_depth current_depth = Inr (PStr ''[Max depth reached]'')"
  by (simp add: create_simple_copy.simps)




















lemma all_fail_raises: "all_providers_raise env_all_fail"
  by (simp add: all_providers_raise_def env_all_fail_def env_ok_def)

lemma notify_None: "\<forall>i m. notify None i m = None"
  by (simp add: notify_def)


subsection \<open>Runs without failing callbacks and saves\<close>

lemma phase1_quiet:
  assumes quiet: "\<And>i m. notify progress_callback i m = None"
    and saves: "\<And>n p c. salvar_etapa_raises env n p c = None"
    and run: "phase1 env data session_id progress_callback w = (Inr b, w')"
  shows "(case generate_gigantic_analysis env data session_id progress_callback of
            Inr v \<Rightarrow> b = v
          | Inl x \<Rightarrow> create_fallback_analysis env data = Inr b)
       \<and> saved_errors w' = saved_errors w
            @ stage_error ''analise_base_falhou'' session_id
                (generate_gigantic_analysis env data session_id progress_callback)"
  using run
  by (cases "generate_gigantic_analysis env data session_id progress_callback";
      cases "create_fallback_analysis env data")
     (auto simp: phase1_def try_except_def andthen_def check_def lift_def ret_def salvar_erro_def
       salvar_etapa_def stage_error_def quiet saves)

lemma phase2_quiet:
  assumes quiet: "\<And>i m. notify progress_callback i m = None"
    and saves: "\<And>n p c. salvar_etapa_raises env n p c = None"
    and run: "phase2 env data session_id progress_callback b w = (Inr e, w')"
  shows "e = stage_value (execute_ultra_enhanced_analysis env (safe_combine_data data b)
                            session_id progress_callback)
       \<and> saved_errors w' = saved_errors w
            @ stage_error ''analise_psicologica_falhou'' session_id
                (execute_ultra_enhanced_analysis env (safe_combine_data data b)
                   session_id progress_callback)"
  using run
  by (cases "execute_ultra_enhanced_analysis env (safe_combine_data data b)
               session_id progress_callback")
     (auto simp: phase2_def try_except_def andthen_def check_def lift_def ret_def salvar_erro_def
       salvar_etapa_def stage_error_def stage_value_def quiet saves)

lemma phase3_quiet:
  assumes quiet: "\<And>i m. notify progress_callback i m = None"
    and saves: "\<And>n p c. salvar_etapa_raises env n p c = None"
    and run: "phase3 env data session_id progress_callback b w = (Inr f, w')"
  shows "f = stage_value (analyze_conversion_funnel env (safe_combine_data data b)
                            (dict_get data ''segmento'' PNone))
       \<and> saved_errors w' = saved_errors w
            @ stage_error ''analise_funil_falhou'' session_id
                (analyze_conversion_funnel env (safe_combine_data data b)
                   (dict_get data ''segmento'' PNone))"
  using run
  by (cases "analyze_conversion_funnel env (safe_combine_data data b)
               (dict_get data ''segmento'' PNone)")
     (auto simp: phase3_def try_except_def andthen_def check_def lift_def ret_def salvar_erro_def
       salvar_etapa_def stage_error_def stage_value_def quiet saves)

lemma phase4_quiet:
  assumes quiet: "\<And>i m. notify progress_callback i m = None"
    and saves: "\<And>n p c. salvar_etapa_raises env n p c = None"
    and run: "phase4 env data session_id progress_callback b e f w = (Inr i, w')"
  shows "i = stage_value (generate_strategic_insights env (combine_all_analyses b e f data))
       \<and> saved_errors w' = saved_errors w
            @ stage_error ''insights_estrategicos_falhou'' session_id
                (generate_strategic_insights env (combine_all_analyses b e f data))"
  using run
  by (cases "generate_strategic_insights env (combine_all_analyses b e f data)")
     (auto simp: phase4_def try_except_def andthen_def check_def lift_def ret_def salvar_erro_def
       salvar_etapa_def stage_error_def stage_value_def quiet saves)

lemma keeps_errors_safe_save: "keeps saved_errors (safe_save_all_data env results session_id)"
  by (simp add: safe_save_all_data_def keeps_errors_save_each)

lemma keeps_state_safe_save: "keeps execution_state (safe_save_all_data env results session_id)"
  by (simp add: safe_save_all_data_def keeps_state_save_each)

lemma quiet_run:
  assumes quiet: "\<And>i m. notify progress_callback i m = None"
    and saves: "\<And>n p c. salvar_etapa_raises env n p c = None"
    and body: "analysis_body env data session_id progress_callback w = (Inr res, w')"
  obtains b e f i report where
    "case generate_gigantic_analysis env data session_id progress_callback of
       Inr v \<Rightarrow> b = v
     | Inl x \<Rightarrow> create_fallback_analysis env data = Inr b"
    "e = stage_value (execute_ultra_enhanced_analysis env (safe_combine_data data b)
                        session_id progress_callback)"
    "f = stage_value (analyze_conversion_funnel env (safe_combine_data data b)
                        (dict_get data ''segmento'' PNone))"
    "i = stage_value (generate_strategic_insights env (combine_all_analyses b e f data))"
    "consolidate_results_robustly env b e f i data session_id = Inr report"
    "res = PDict [
       (''success'', PBool True),
       (''session_id'', PStr session_id),
       (''execution_time'', PFloat (time_end env - time_start env)),
       (''report'', report),
       (''sync_status'', PStr ''ULTRA_ROBUST_SUCCESS''),
       (''quality_level'', PStr (if truthy e then ''PREMIUM'' else ''HIGH''))]"
    "saved_errors w' = saved_errors w
       @ stage_error ''analise_base_falhou'' session_id
           (generate_gigantic_analysis env data session_id progress_callback)
       @ stage_error ''analise_psicologica_falhou'' session_id
           (execute_ultra_enhanced_analysis env (safe_combine_data data b)
              session_id progress_callback)
       @ stage_error ''analise_funil_falhou'' session_id
           (analyze_conversion_funnel env (safe_combine_data data b)
              (dict_get data ''segmento'' PNone))
       @ stage_error ''insights_estrategicos_falhou'' session_id
           (generate_strategic_insights env (combine_all_analyses b e f data))"
    "map_of (execution_state w') session_id
       = Some \<lparr>status = ''completed'', start_time = time_start env, errors = [],
               execution_time = Some (time_end env - time_start env), error = None\<rparr>"
proof -
  from body obtain w0 w1 b w2 e w3 f w4 i w5 report w6 w7 w8 where
    reg: "register_session env session_id w = (Inr (), w0)"
    and n1: "check (notify progress_callback 1 ''Iniciando analise ultra robusta...'') w0 = (Inr (), w1)"
    and p1: "phase1 env data session_id progress_callback w1 = (Inr b, w2)"
    and p2: "phase2 env data session_id progress_callback b w2 = (Inr e, w3)"
    and p3: "phase3 env data session_id progress_callback b w3 = (Inr f, w4)"
    and p4: "phase4 env data session_id progress_callback b e f w4 = (Inr i, w5)"
    and n12: "check (notify progress_callback 12 ''Consolidando resultados finais...'') w5 = (Inr (), w6)"
    and cons: "consolidate_results_robustly env b e f i data session_id = Inr report"
    and n15: "check (notify progress_callback 15 ''Salvando resultados...'') w6 = (Inr (), w7)"
    and save: "safe_save_all_data env report session_id w7 = (Inr (), w8)"
    and upd: "update_session session_id
       (\<lambda>s. s\<lparr>status := ''completed'',
               execution_time := Some (time_end env - time_start env)\<rparr>) w8 = (Inr (), w')"
    and res: "res = PDict [
       (''success'', PBool True),
       (''session_id'', PStr session_id),
       (''execution_time'', PFloat (time_end env - time_start env)),
       (''report'', report),
       (''sync_status'', PStr ''ULTRA_ROBUST_SUCCESS''),
       (''quality_level'', PStr (if truthy e then ''PREMIUM'' else ''HIGH''))]"
    by (elim body_returnsE)
  note q1 = phase1_quiet[OF quiet saves p1] and q2 = phase2_quiet[OF quiet saves p2]
    and q3 = phase3_quiet[OF quiet saves p3] and q4 = phase4_quiet[OF quiet saves p4]
  have e0: "saved_errors w0 = saved_errors w" using keepsD[OF keeps_errors_register reg] .
  have e1: "saved_errors w1 = saved_errors w0" using keepsD[OF keeps_check n1] .
  have e6: "saved_errors w6 = saved_errors w5" using keepsD[OF keeps_check n12] .
  have e7: "saved_errors w7 = saved_errors w6" using keepsD[OF keeps_check n15] .
  have e8: "saved_errors w8 = saved_errors w7" using keepsD[OF keeps_errors_safe_save save] .
  have e9: "saved_errors w' = saved_errors w8" using keepsD[OF keeps_errors_update_session upd] .
  have errs: "saved_errors w' = saved_errors w
       @ stage_error ''analise_base_falhou'' session_id
           (generate_gigantic_analysis env data session_id progress_callback)
       @ stage_error ''analise_psicologica_falhou'' session_id
           (execute_ultra_enhanced_analysis env (safe_combine_data data b)
              session_id progress_callback)
       @ stage_error ''analise_funil_falhou'' session_id
           (analyze_conversion_funnel env (safe_combine_data data b)
              (dict_get data ''segmento'' PNone))
       @ stage_error ''insights_estrategicos_falhou'' session_id
           (generate_strategic_insights env (combine_all_analyses b e f data))"
    using q1 q2 q3 q4 e0 e1 e6 e7 e8 e9 by simp
  have s0: "map_of (execution_state w0) session_id
       = Some \<lparr>status = ''running'', start_time = time_start env, errors = [],
               execution_time = None, error = None\<rparr>"
    using reg by (auto simp: register_session_def map_of_dict_set)
  have s1: "execution_state w1 = execution_state w0" using keepsD[OF keeps_check n1] .
  have s2: "execution_state w2 = execution_state w1" using keepsD[OF keeps_state_phase1 p1] .
  have s3: "execution_state w3 = execution_state w2" using keepsD[OF keeps_state_phase2 p2] .
  have s4: "execution_state w4 = execution_state w3" using keepsD[OF keeps_state_phase3 p3] .
  have s5: "execution_state w5 = execution_state w4" using keepsD[OF keeps_state_phase4 p4] .
  have s6: "execution_state w6 = execution_state w5" using keepsD[OF keeps_check n12] .
  have s7: "execution_state w7 = execution_state w6" using keepsD[OF keeps_check n15] .
  have s8: "execution_state w8 = execution_state w7" using keepsD[OF keeps_state_safe_save save] .
  have "map_of (execution_state w8) session_id
       = Some \<lparr>status = ''running'', start_time = time_start env, errors = [],
               execution_time = None, error = None\<rparr>"
    using s0 s1 s2 s3 s4 s5 s6 s7 s8 by simp
  with upd have final: "map_of (execution_state w') session_id
       = Some \<lparr>status = ''completed'', start_time = time_start env, errors = [],
               execution_time = Some (time_end env - time_start env), error = None\<rparr>"
    by (auto simp: update_session_def map_of_dict_set)
  from q1 q2 q3 q4 cons res errs final show ?thesis
    by (intro that[of b e f i report]) simp_all
qed

subsection \<open>Stage isolation\<close>

lemma check_world: "check r w = (x, w1) \<Longrightarrow> w1 = w"
  by (auto simp: check_def)




lemma body_not_isl:
  assumes "\<not> isl (fst (analysis_body env data session_id progress_callback w))"
  obtains res w' where "analysis_body env data session_id progress_callback w = (Inr res, w')"
proof -
  obtain r w' where rw: "analysis_body env data session_id progress_callback w = (r, w')"
    by (cases "analysis_body env data session_id progress_callback w")
  with assms obtain res where "r = Inr res" by (cases r) auto
  with rw that show ?thesis by simp
qed




subsection \<open>Error bookkeeping, callbacks, quality level\<close>

lemma update_session_Inr:
  assumes "update_session session_id f w = (Inr (), w')"
  shows "\<exists>s. map_of (execution_state w') session_id = Some (f s)"
  using assms by (auto simp: update_session_def map_of_dict_set split: option.splits)

lemma final_session:
  "\<exists>s. map_of (execution_state (snd
          (execute_synchronized_analysis env data session_id progress_callback w))) session_id = Some s
       \<and> errors s = []
       \<and> (status s = ''completed'' \<or> status s = ''completed_with_errors'')"
proof -
  obtain r w1 where body: "analysis_body env data session_id progress_callback w = (r, w1)"
    by (cases "analysis_body env data session_id progress_callback w")
  show ?thesis
  proof (cases r)
    case (Inl e)
    with body have "analysis_body env data session_id progress_callback w = (Inl e, w1)" by simp
    from execute_emergency[OF this] show ?thesis
      by (auto simp: map_option_case split: option.splits)
  next
    case (Inr res)
    with body have b: "analysis_body env data session_id progress_callback w = (Inr res, w1)" by simp
    from b obtain w8 where upd: "update_session session_id
       (\<lambda>s. s\<lparr>status := ''completed'',
               execution_time := Some (time_end env - time_start env)\<rparr>) w8 = (Inr (), w1)"
      by (elim body_returnsE)
    from update_session_Inr[OF upd] obtain s0 where
      s0: "map_of (execution_state w1) session_id
             = Some (s0\<lparr>status := ''completed'',
                        execution_time := Some (time_end env - time_start env)\<rparr>)"
      by blast
    from registered_after_body[of session_id env data progress_callback w] b s0
    have "errors s0 = []" by (simp add: registered_def)
    with s0 execute_normal[OF b] show ?thesis by simp
  qed
qed

lemma register_running:
  "map_option status (map_of (execution_state (snd (register_session env session_id w))) session_id)
     = Some ''running''"
  by (simp add: register_session_def map_of_dict_set)

text \<open>
  Claim C7, as stated, has one entry in the session's error list for each failed stage.
  When all four providers raise, the list is empty at the end; the four records are in the
  error sink.
\<close>

theorem empty_error_list_counterexample:
  "all_providers_raise env_all_fail
   \<and> map_option errors (map_of (execution_state (snd
        (execute_synchronized_analysis env_all_fail request_varejo ''s1'' None no_sessions))) ''s1'')
      = Some []
   \<and> length (saved_errors (snd
        (execute_synchronized_analysis env_all_fail request_varejo ''s1'' None no_sessions))) = 4"
proof (intro conjI)
  show "all_providers_raise env_all_fail"
    by (rule all_fail_raises)
  show "map_option errors (map_of (execution_state (snd
        (execute_synchronized_analysis env_all_fail request_varejo ''s1'' None no_sessions))) ''s1'')
      = Some []"
    by code_simp
  show "length (saved_errors (snd
        (execute_synchronized_analysis env_all_fail request_varejo ''s1'' None no_sessions))) = 4"
    by code_simp
qed

text \<open>
  Claim C7, amended.  After every run the session's \<^verbatim>\<open>errors\<close> list is empty: it is
  created empty and no statement appends to it.  The status is \<^verbatim>\<open>running\<close> from the
  registration on and no stage changes the execution state, whether it fails or not; the
  run ends with \<^verbatim>\<open>completed\<close> or \<^verbatim>\<open>completed_with_errors\<close>.  A failed stage is reported
  to the error sink instead: on a run in which neither the callback nor a save raises and
  nothing escapes to the outermost handler, \<^verbatim>\<open>salvar_erro\<close> has received exactly one
  record for each stage whose provider raised, in the order of the stages.
\<close>

theorem stage_errors_go_to_the_sink:
  "(\<exists>s. map_of (execution_state (snd
          (execute_synchronized_analysis env data session_id progress_callback w))) session_id = Some s
       \<and> errors s = []
       \<and> (status s = ''completed'' \<or> status s = ''completed_with_errors''))
   \<and> map_option status
        (map_of (execution_state (snd (register_session env session_id w))) session_id)
       = Some ''running''
   \<and> keeps execution_state (phase1 env data session_id progress_callback)
   \<and> keeps execution_state (phase2 env data session_id progress_callback base)
   \<and> keeps execution_state (phase3 env data session_id progress_callback base)
   \<and> keeps execution_state (phase4 env data session_id progress_callback base enhanced funnel)
   \<and> ((\<forall>i m. notify progress_callback i m = None)
        \<and> (\<forall>n p c. salvar_etapa_raises env n p c = None)
        \<and> \<not> isl (fst (analysis_body env data session_id progress_callback w)) \<longrightarrow>
       (\<exists>b e f.
          (case generate_gigantic_analysis env data session_id progress_callback of
             Inr v \<Rightarrow> b = v
           | Inl x \<Rightarrow> create_fallback_analysis env data = Inr b)
          \<and> e = stage_value (execute_ultra_enhanced_analysis env (safe_combine_data data b)
                                session_id progress_callback)
          \<and> f = stage_value (analyze_conversion_funnel env (safe_combine_data data b)
                                (dict_get data ''segmento'' PNone))
          \<and> saved_errors (snd (execute_synchronized_analysis env data session_id progress_callback w))
              = saved_errors w
                @ stage_error ''analise_base_falhou'' session_id
                    (generate_gigantic_analysis env data session_id progress_callback)
                @ stage_error ''analise_psicologica_falhou'' session_id
                    (execute_ultra_enhanced_analysis env (safe_combine_data data b)
                       session_id progress_callback)
                @ stage_error ''analise_funil_falhou'' session_id
                    (analyze_conversion_funnel env (safe_combine_data data b)
                       (dict_get data ''segmento'' PNone))
                @ stage_error ''insights_estrategicos_falhou'' session_id
                    (generate_strategic_insights env (combine_all_analyses b e f data))
          \<and> map_option status (map_of (execution_state (snd
                (execute_synchronized_analysis env data session_id progress_callback w))) session_id)
              = Some ''completed''))"
proof (intro conjI impI)
  show "\<exists>s. map_of (execution_state (snd
          (execute_synchronized_analysis env data session_id progress_callback w))) session_id = Some s
       \<and> errors s = []
       \<and> (status s = ''completed'' \<or> status s = ''completed_with_errors'')"
    by (rule final_session)
  show "map_option status
        (map_of (execution_state (snd (register_session env session_id w))) session_id)
       = Some ''running''"
    by (rule register_running)
  show "keeps execution_state (phase1 env data session_id progress_callback)"
    by (rule keeps_state_phase1)
  show "keeps execution_state (phase2 env data session_id progress_callback base)"
    by (rule keeps_state_phase2)
  show "keeps execution_state (phase3 env data session_id progress_callback base)"
    by (rule keeps_state_phase3)
  show "keeps execution_state (phase4 env data session_id progress_callback base enhanced funnel)"
    by (rule keeps_state_phase4)
next
  assume a: "(\<forall>i m. notify progress_callback i m = None)
        \<and> (\<forall>n p c. salvar_etapa_raises env n p c = None)
        \<and> \<not> isl (fst (analysis_body env data session_id progress_callback w))"
  then obtain res w' where body: "analysis_body env data session_id progress_callback w = (Inr res, w')"
    by (elim conjE body_not_isl)
  from a have quiet: "\<And>i m. notify progress_callback i m = None"
    and saves: "\<And>n p c. salvar_etapa_raises env n p c = None"
    by simp_all
  have out: "snd (execute_synchronized_analysis env data session_id progress_callback w) = w'"
    using execute_normal[OF body] by simp
  from quiet_run[OF quiet saves body] obtain b e f where
    b: "case generate_gigantic_analysis env data session_id progress_callback of
          Inr v \<Rightarrow> b = v
        | Inl x \<Rightarrow> create_fallback_analysis env data = Inr b"
    and e: "e = stage_value (execute_ultra_enhanced_analysis env (safe_combine_data data b)
                               session_id progress_callback)"
    and f: "f = stage_value (analyze_conversion_funnel env (safe_combine_data data b)
                               (dict_get data ''segmento'' PNone))"
    and errs: "saved_errors w' = saved_errors w
       @ stage_error ''analise_base_falhou'' session_id
           (generate_gigantic_analysis env data session_id progress_callback)
       @ stage_error ''analise_psicologica_falhou'' session_id
           (execute_ultra_enhanced_analysis env (safe_combine_data data b)
              session_id progress_callback)
       @ stage_error ''analise_funil_falhou'' session_id
           (analyze_conversion_funnel env (safe_combine_data data b)
              (dict_get data ''segmento'' PNone))
       @ stage_error ''insights_estrategicos_falhou'' session_id
           (generate_strategic_insights env (combine_all_analyses b e f data))"
    and final: "map_of (execution_state w') session_id
       = Some \<lparr>status = ''completed'', start_time = time_start env, errors = [],
               execution_time = Some (time_end env - time_start env), error = None\<rparr>"
    by metis
  from final have st: "map_option status (map_of (execution_state w') session_id) = Some ''completed''"
    by simp
  show "\<exists>b e f.
          (case generate_gigantic_analysis env data session_id progress_callback of
             Inr v \<Rightarrow> b = v
           | Inl x \<Rightarrow> create_fallback_analysis env data = Inr b)
          \<and> e = stage_value (execute_ultra_enhanced_analysis env (safe_combine_data data b)
                                session_id progress_callback)
          \<and> f = stage_value (analyze_conversion_funnel env (safe_combine_data data b)
                                (dict_get data ''segmento'' PNone))
          \<and> saved_errors (snd (execute_synchronized_analysis env data session_id progress_callback w))
              = saved_errors w
                @ stage_error ''analise_base_falhou'' session_id
                    (generate_gigantic_analysis env data session_id progress_callback)
                @ stage_error ''analise_psicologica_falhou'' session_id
                    (execute_ultra_enhanced_analysis env (safe_combine_data data b)
                       session_id progress_callback)
                @ stage_error ''analise_funil_falhou'' session_id
                    (analyze_conversion_funnel env (safe_combine_data data b)
                       (dict_get data ''segmento'' PNone))
                @ stage_error ''insights_estrategicos_falhou'' session_id
                    (generate_strategic_insights env (combine_all_analyses b e f data))
          \<and> map_option status (map_of (execution_state (snd
                (execute_synchronized_analysis env data session_id progress_callback w))) session_id)
              = Some ''completed''"
    unfolding out using b e f errs st
    by (intro exI[of _ b] exI[of _ e] exI[of _ f] conjI)
qed

theorem stage_errors_go_to_the_sink_witness:
  "\<exists>b e f.
      (case generate_gigantic_analysis env_all_fail request_varejo ''s1'' None of
         Inr v \<Rightarrow> b = v
       | Inl x \<Rightarrow> create_fallback_analysis env_all_fail request_varejo = Inr b)
      \<and> e = stage_value (execute_ultra_enhanced_analysis env_all_fail
                            (safe_combine_data request_varejo b) ''s1'' None)
      \<and> f = stage_value (analyze_conversion_funnel env_all_fail
                            (safe_combine_data request_varejo b)
                            (dict_get request_varejo ''segmento'' PNone))
      \<and> saved_errors (snd (execute_synchronized_analysis env_all_fail request_varejo ''s1''
                              None no_sessions))
          = saved_errors no_sessions
            @ stage_error ''analise_base_falhou'' ''s1''
                (generate_gigantic_analysis env_all_fail request_varejo ''s1'' None)
            @ stage_error ''analise_psicologica_falhou'' ''s1''
                (execute_ultra_enhanced_analysis env_all_fail
                   (safe_combine_data request_varejo b) ''s1'' None)
            @ stage_error ''analise_funil_falhou'' ''s1''
                (analyze_conversion_funnel env_all_fail (safe_combine_data request_varejo b)
                   (dict_get request_varejo ''segmento'' PNone))
            @ stage_error ''insights_estrategicos_falhou'' ''s1''
                (generate_strategic_insights env_all_fail
                   (combine_all_analyses b e f request_varejo))
      \<and> map_option status (map_of (execution_state (snd
            (execute_synchronized_analysis env_all_fail request_varejo ''s1'' None no_sessions)))
            ''s1'')
          = Some ''completed''"
proof -
  have saves: "\<forall>n p c. salvar_etapa_raises env_all_fail n p c = None"
    by (simp add: env_all_fail_def env_ok_def)
  have run: "\<not> isl (fst (analysis_body env_all_fail request_varejo ''s1'' None no_sessions))"
    by code_simp
  from stage_errors_go_to_the_sink[where env = env_all_fail and data = request_varejo
      and session_id = "''s1''" and progress_callback = None and w = no_sessions]
    notify_None saves run
  show ?thesis by blast
qed

text \<open>
  Claim C9, as stated, says that a callback that raises changes nothing either.  The first
  call of the callback stands outside the stages: when it raises, the outermost handler
  returns the minimal report, where the same run without a callback returns the full one.
\<close>

theorem raising_callback_counterexample:
  "lookup_path [''execution_mode'']
       (the_result (execute_synchronized_analysis env_ok request_varejo ''s1''
                      (Some raising_callback) no_sessions))
     = Some (PStr ''EMERGENCY_SUCCESS'')
   \<and> lookup_path [''execution_mode'']
       (the_result (execute_synchronized_analysis env_ok request_varejo ''s1'' None no_sessions))
     = None
   \<and> lookup_path [''sync_status'']
       (the_result (execute_synchronized_analysis env_ok request_varejo ''s1'' None no_sessions))
     = Some (PStr ''ULTRA_ROBUST_SUCCESS'')"
  by code_simp

text \<open>
  Claim C9, amended.  A callback that never raises changes nothing: with it the run
  returns the same result and leaves the same state as without a callback, provided the
  two providers that are handed the callback return the same with it as without.  (A
  callback that raises is treated like any other exception of the block it is called in.)
\<close>

theorem quiet_callback_changes_nothing:
  assumes "\<forall>i m. cb i m = None"
    and "\<forall>d. generate_gigantic_analysis env d session_id (Some cb)
               = generate_gigantic_analysis env d session_id None"
    and "\<forall>d. execute_ultra_enhanced_analysis env d session_id (Some cb)
               = execute_ultra_enhanced_analysis env d session_id None"
  shows "execute_synchronized_analysis env data session_id (Some cb) w
           = execute_synchronized_analysis env data session_id None w"
proof -
  have n: "notify (Some cb) i m = notify None i m" for i m
    using assms(1) by (simp add: notify_def)
  have p1: "phase1 env data session_id (Some cb) = phase1 env data session_id None"
    unfolding phase1_def n using assms(2) by simp
  have p2: "phase2 env data session_id (Some cb) b = phase2 env data session_id None b" for b
    unfolding phase2_def n using assms(3) by simp
  have p3: "phase3 env data session_id (Some cb) b = phase3 env data session_id None b" for b
    unfolding phase3_def n by simp
  have p4: "phase4 env data session_id (Some cb) b e f = phase4 env data session_id None b e f"
    for b e f
    unfolding phase4_def n by simp
  have "analysis_body env data session_id (Some cb) = analysis_body env data session_id None"
    unfolding analysis_body_def n p1 p2 p3 p4 by simp
  then show ?thesis
    by (simp add: execute_synchronized_analysis_def)
qed

theorem quiet_callback_changes_nothing_witness:
  "execute_synchronized_analysis env_ok request_varejo ''s1'' (Some quiet_callback) no_sessions
     = execute_synchronized_analysis env_ok request_varejo ''s1'' None no_sessions"
  using quiet_callback_changes_nothing[of quiet_callback env_ok "''s1''" request_varejo no_sessions]
  by (simp add: quiet_callback_def env_ok_def)

text \<open>
  Claim C10.  The top-level \<^verbatim>\<open>quality_level\<close> is never \<^verbatim>\<open>BASIC\<close>.  The minimal report of
  the outermost handler has no such field.  On a run in which nothing escapes to that
  handler the field is \<^verbatim>\<open>PREMIUM\<close> when phase 2 left a truthy value in
  \<^verbatim>\<open>enhanced_analysis\<close> (the callback, the provider and the save of that phase returned, and
  the provider's result is not empty) and \<^verbatim>\<open>HIGH\<close> otherwise, whatever the other three
  stages did.
\<close>

theorem quality_level_premium_or_high:
  "lookup_path [''quality_level'']
     (the_result (execute_synchronized_analysis env data session_id progress_callback w))
     \<noteq> Some (PStr ''BASIC'')
   \<and> (isl (fst (analysis_body env data session_id progress_callback w)) \<longrightarrow>
        lookup_path [''quality_level'']
          (the_result (execute_synchronized_analysis env data session_id progress_callback w)) = None)
   \<and> (\<not> isl (fst (analysis_body env data session_id progress_callback w)) \<longrightarrow>
        (\<exists>b. fst (phase1 env data session_id progress_callback
                    (snd (register_session env session_id w))) = Inr b
           \<and> lookup_path [''quality_level'']
                (the_result (execute_synchronized_analysis env data session_id progress_callback w))
               = Some (PStr (if truthy (enhanced_stage_value env data session_id progress_callback b)
                             then ''PREMIUM'' else ''HIGH''))))"
proof -
  have emergency: "lookup_path [''quality_level'']
          (the_result (execute_synchronized_analysis env data session_id progress_callback w)) = None"
    if "isl (fst (analysis_body env data session_id progress_callback w))"
  proof -
    from that obtain e w1 where "analysis_body env data session_id progress_callback w = (Inl e, w1)"
      by (cases "analysis_body env data session_id progress_callback w") (auto simp: isl_def)
    from execute_emergency[OF this] show ?thesis
      by (auto simp: the_result_def generate_minimal_success_report_def)
  qed
  have normal: "\<exists>b. fst (phase1 env data session_id progress_callback
                    (snd (register_session env session_id w))) = Inr b
           \<and> lookup_path [''quality_level'']
                (the_result (execute_synchronized_analysis env data session_id progress_callback w))
               = Some (PStr (if truthy (enhanced_stage_value env data session_id progress_callback b)
                             then ''PREMIUM'' else ''HIGH''))"
    if "\<not> isl (fst (analysis_body env data session_id progress_callback w))"
  proof -
    from that obtain res w' where body: "analysis_body env data session_id progress_callback w = (Inr res, w')"
      by (rule body_not_isl)
    from body obtain w0 w1 b w2 e w3 report where
      reg: "register_session env session_id w = (Inr (), w0)"
      and n1: "check (notify progress_callback 1 ''Iniciando analise ultra robusta...'') w0 = (Inr (), w1)"
      and p1: "phase1 env data session_id progress_callback w1 = (Inr b, w2)"
      and p2: "phase2 env data session_id progress_callback b w2 = (Inr e, w3)"
      and res: "res = PDict [
         (''success'', PBool True),
         (''session_id'', PStr session_id),
         (''execution_time'', PFloat (time_end env - time_start env)),
         (''report'', report),
         (''sync_status'', PStr ''ULTRA_ROBUST_SUCCESS''),
         (''quality_level'', PStr (if truthy e then ''PREMIUM'' else ''HIGH''))]"
      by (elim body_returnsE)
    from check_world[OF n1] reg have w1: "w1 = snd (register_session env session_id w)" by simp
    from p2 phase2_value[of env data session_id progress_callback b w2]
    have e: "e = enhanced_stage_value env data session_id progress_callback b" by simp
    have "the_result (execute_synchronized_analysis env data session_id progress_callback w) = res"
      using execute_normal[OF body] by (simp add: the_result_def)
    with res e p1 w1 show ?thesis by (intro exI[of _ b]) simp
  qed
  have "lookup_path [''quality_level'']
     (the_result (execute_synchronized_analysis env data session_id progress_callback w))
     \<noteq> Some (PStr ''BASIC'')"
  proof (cases "isl (fst (analysis_body env data session_id progress_callback w))")
    case True
    with emergency show ?thesis by simp
  next
    case False
    from normal[OF False] show ?thesis by (auto split: if_splits)
  qed
  with emergency normal show ?thesis by blast
qed
theorem quality_level_premium_or_high_witness:
  "\<exists>b. fst (phase1 env_ok request_varejo ''s1'' None
              (snd (register_session env_ok ''s1'' no_sessions))) = Inr b
     \<and> lookup_path [''quality_level'']
          (the_result (execute_synchronized_analysis env_ok request_varejo ''s1'' None no_sessions))
         = Some (PStr (if truthy (enhanced_stage_value env_ok request_varejo ''s1'' None b)
                       then ''PREMIUM'' else ''HIGH''))"
proof -
  have run: "\<not> isl (fst (analysis_body env_ok request_varejo ''s1'' None no_sessions))"
    by code_simp
  from quality_level_premium_or_high[of env_ok request_varejo "''s1''" None no_sessions] run
  show ?thesis by blast
qed

section \<open>Properties of the report generator\<close>












end
